theory Spec2Isabelle
  imports Main
begin

section \<open>Values thrown by the JavaScript code\<close>

text \<open>
  A \<^verbatim>\<open>throw\<close> carries either an \<^verbatim>\<open>Error\<close> object (its message is kept), some other
  value (kept as the text \<^verbatim>\<open>JSON.stringify\<close> gives for it), or null/undefined.
  A fallible computation returns \<open>thrown + 'a\<close>, with \<open>Inl\<close> the thrown value.
\<close>

datatype thrown = ErrorObj string | NonErrorValue string | Nullish

definition try_catch :: "thrown + 'a \<Rightarrow> (thrown \<Rightarrow> thrown + 'a) \<Rightarrow> thrown + 'a" where
  "try_catch body handler = (case body of Inl e \<Rightarrow> handler e | Inr v \<Rightarrow> Inr v)"

text \<open>Decimal rendering of a number inside a template literal.\<close>

fun string_of_nat :: "nat \<Rightarrow> string" where
  "string_of_nat n =
     (if n < 10 then [char_of (48 + n)]
      else string_of_nat (n div 10) @ [char_of (48 + n mod 10)])"

definition string_of_int :: "int \<Rightarrow> string" where
  "string_of_int i = (if i < 0 then CHR ''-'' # string_of_nat (nat (- i)) else string_of_nat (nat i))"

section \<open>The MCP connection manager (mcp\_manager.ts)\<close>

type_synonym server_id = int
type_synonym client_ref = nat
type_synonym promise_ref = nat

text \<open>A row of the \<^verbatim>\<open>mcpServers\<close> table, as far as \<^verbatim>\<open>initializeClient\<close> reads it.\<close>

record mcp_server =
  row_id :: server_id
  transport :: "string option"
  command :: "string option"
  args :: "string list option"
  envJson :: "(string \<times> string) list option"
  url :: "string option"

datatype transport_handle =
    StdioClientTransport string "string list" "(string \<times> string) list option"
  | StreamableHTTPClientTransport string

text \<open>
  \<^verbatim>\<open>Promise.race([clientPromise, timeoutPromise])\<close>: the client factory fulfils first,
  rejects first, or the 30 s timer fires first.
\<close>

datatype race_outcome = ClientCreated client_ref | ClientFailed thrown | TimerFired

text \<open>
  \<^verbatim>\<open>close()\<close> of a client returns a promise. The production client's \<^verbatim>\<open>close\<close> is
  async: the call itself never throws, and a failing transport close shows as a rejection
  of the returned promise. \<open>CloseThrows\<close> is a \<^verbatim>\<open>close\<close> that throws before it returns
  a promise.
\<close>

datatype close_outcome = CloseResolves | CloseRejects thrown | CloseThrows thrown

text \<open>
  What the manager reads from outside: the database, the URL constructor, how the race
  between client creation and the timer ends, and what \<^verbatim>\<open>close()\<close> of a client does.
\<close>

record mcp_env =
  db_select :: "server_id \<Rightarrow> mcp_server list"
  url_parses :: "string \<Rightarrow> bool"
  race_result :: "server_id \<Rightarrow> transport_handle \<Rightarrow> race_outcome"
  close_behaviour :: "client_ref \<Rightarrow> close_outcome"

definition MCP_CLIENT_INIT_TIMEOUT_MS :: nat where
  "MCP_CLIENT_INIT_TIMEOUT_MS = 30000"

text \<open>The observable steps of one \<^verbatim>\<open>initializeClient\<close> run, in program order.\<close>

datatype init_event =
    AwaitDbSelect server_id
  | NewTransport transport_handle
  | CreateMCPClient transport_handle
  | SetTimeout nat
  | AwaitPromiseRace

text \<open>JavaScript truthiness of a nullable string: null and the empty string are falsy.\<close>

definition truthy :: "string option \<Rightarrow> bool" where
  "truthy v = (case v of None \<Rightarrow> False | Some s \<Rightarrow> s \<noteq> [])"

definition template_str :: "string option \<Rightarrow> string" where
  "template_str v = (case v of None \<Rightarrow> ''null'' | Some s \<Rightarrow> s)"

definition timeout_error :: "server_id \<Rightarrow> thrown" where
  "timeout_error serverId =
     ErrorObj (''MCP client initialization timeout for server '' @ string_of_int serverId
               @ '' after '' @ string_of_nat MCP_CLIENT_INIT_TIMEOUT_MS @ ''ms'')"

text \<open>The tail of \<^verbatim>\<open>initializeClient\<close>, from \<^verbatim>\<open>experimental_createMCPClient\<close> on.\<close>

definition create_with_timeout ::
  "mcp_env \<Rightarrow> server_id \<Rightarrow> transport_handle \<Rightarrow> init_event list \<times> (thrown + client_ref)" where
  "create_with_timeout env serverId t =
     ([CreateMCPClient t, SetTimeout MCP_CLIENT_INIT_TIMEOUT_MS, AwaitPromiseRace],
      (case race_result env serverId t of
         ClientCreated c \<Rightarrow> Inr c
       | ClientFailed e \<Rightarrow> Inl e
       | TimerFired \<Rightarrow> Inl (timeout_error serverId)))"

definition initializeClient ::
  "mcp_env \<Rightarrow> server_id \<Rightarrow> init_event list \<times> (thrown + client_ref)" where
  "initializeClient env serverId =
     (case find (\<lambda>x. row_id x = serverId) (db_select env serverId) of
        None \<Rightarrow> ([AwaitDbSelect serverId],
                 Inl (ErrorObj (''MCP server not found: '' @ string_of_int serverId)))
      | Some s \<Rightarrow>
          if transport s = Some ''stdio'' then
            (if \<not> truthy (command s) then
               ([AwaitDbSelect serverId], Inl (ErrorObj ''MCP server command is required''))
             else
               let t = StdioClientTransport (the (command s))
                         (case args s of None \<Rightarrow> [] | Some a \<Rightarrow> a) (envJson s);
                   (evs, r) = create_with_timeout env serverId t
               in (AwaitDbSelect serverId # NewTransport t # evs, r))
          else if transport s = Some ''http'' then
            (if \<not> truthy (url s) then
               ([AwaitDbSelect serverId], Inl (ErrorObj ''HTTP MCP requires url''))
             else if \<not> url_parses env (the (url s)) then
               ([AwaitDbSelect serverId], Inl (ErrorObj ''Invalid URL''))
             else
               let t = StreamableHTTPClientTransport (the (url s));
                   (evs, r) = create_with_timeout env serverId t
               in (AwaitDbSelect serverId # NewTransport t # evs, r))
          else
            ([AwaitDbSelect serverId],
             Inl (ErrorObj (''Unsupported MCP transport: '' @ template_str (transport s)))))"

text \<open>
  A promise returned by \<^verbatim>\<open>initializeClient\<close>: the server it was started for and its
  settlement. The manager's two maps, the promises it created, and four logs: every
  \<^verbatim>\<open>initializeClient\<close> invocation, every \<^verbatim>\<open>close()\<close> invocation, every error passed to
  \<^verbatim>\<open>logger.error\<close> by \<^verbatim>\<open>dispose\<close>, and every rejection of a promise that nothing
  awaits or handles.
\<close>

datatype settlement = Pending | Fulfilled client_ref | Rejected thrown

record mcp_manager =
  clients :: "server_id \<rightharpoonup> client_ref"
  initializingClients :: "server_id \<rightharpoonup> promise_ref"
  promises :: "(server_id \<times> settlement) list"
  initLog :: "server_id list"
  closeLog :: "client_ref list"
  errorLog :: "thrown list"
  unhandledRejections :: "thrown list"

definition new_manager :: mcp_manager where
  "new_manager = \<lparr>clients = Map.empty, initializingClients = Map.empty, promises = [],
                  initLog = [], closeLog = [], errorLog = [], unhandledRejections = []\<rparr>"

text \<open>
  \<^verbatim>\<open>getClient\<close> up to its first suspension. It returns the cached client, or returns the
  in-flight promise itself, or calls \<^verbatim>\<open>initializeClient\<close>, registers the promise and
  suspends on it as the owner of the attempt. Nothing else runs in between: the
  scheduling is cooperative and there is no \<^verbatim>\<open>await\<close> before the registration.
\<close>

datatype call_result = Returned client_ref | Shares promise_ref | Owns promise_ref

definition getClient_call :: "server_id \<Rightarrow> mcp_manager \<Rightarrow> call_result \<times> mcp_manager" where
  "getClient_call serverId m =
     (case clients m serverId of
        Some existing \<Rightarrow> (Returned existing, m)
      | None \<Rightarrow>
          (case initializingClients m serverId of
             Some initializing \<Rightarrow> (Shares initializing, m)
           | None \<Rightarrow>
               let initPromise = length (promises m)
               in (Owns initPromise,
                   m\<lparr>promises := promises m @ [(serverId, Pending)],
                     initLog := initLog m @ [serverId],
                     initializingClients := (initializingClients m)(serverId \<mapsto> initPromise)\<rparr>)))"

text \<open>The promise of an \<^verbatim>\<open>initializeClient\<close> run settles with that run's result.\<close>

definition settle :: "mcp_env \<Rightarrow> promise_ref \<Rightarrow> mcp_manager \<Rightarrow> mcp_manager" where
  "settle env p m =
     (if p < length (promises m) \<and> snd (promises m ! p) = Pending then
        let serverId = fst (promises m ! p)
        in m\<lparr>promises := (promises m)[p := (serverId,
               (case snd (initializeClient env serverId) of
                  Inr c \<Rightarrow> Fulfilled c | Inl e \<Rightarrow> Rejected e))]\<rparr>
      else m)"

definition promise_state :: "mcp_manager \<Rightarrow> promise_ref \<Rightarrow> settlement" where
  "promise_state m p = (if p < length (promises m) then snd (promises m ! p) else Pending)"

text \<open>
  The owner's continuation after \<^verbatim>\<open>await initPromise\<close>: the \<^verbatim>\<open>try\<close> stores and returns
  the client, the \<^verbatim>\<open>finally\<close> deletes the in-flight entry on both paths. It cannot run
  while the promise is pending (\<open>None\<close>).
\<close>

definition getClient_resume ::
  "server_id \<Rightarrow> promise_ref \<Rightarrow> mcp_manager \<Rightarrow> ((thrown + client_ref) \<times> mcp_manager) option" where
  "getClient_resume serverId initPromise m =
     (case promise_state m initPromise of
        Pending \<Rightarrow> None
      | Fulfilled client \<Rightarrow>
          (let m1 = m\<lparr>clients := (clients m)(serverId \<mapsto> client)\<rparr>
           in Some (Inr client,
                    m1\<lparr>initializingClients := (initializingClients m1)(serverId := None)\<rparr>))
      | Rejected e \<Rightarrow>
          Some (Inl e, m\<lparr>initializingClients := (initializingClients m)(serverId := None)\<rparr>))"

text \<open>
  \<^verbatim>\<open>dispose\<close> is not async and calls \<^verbatim>\<open>c.close()\<close> inside \<^verbatim>\<open>try\<close> without awaiting the
  promise. The \<^verbatim>\<open>catch\<close> sees only what the call itself throws, logs it and goes on. A
  promise that rejects later is out of its reach: nothing is logged, and the rejection is
  left unhandled. Both deletions follow whatever \<^verbatim>\<open>close()\<close> did.
\<close>

definition close_client :: "mcp_env \<Rightarrow> client_ref \<Rightarrow> mcp_manager \<Rightarrow> thrown + mcp_manager" where
  "close_client env c m =
     (case close_behaviour env c of
        CloseResolves \<Rightarrow> Inr (m\<lparr>closeLog := closeLog m @ [c]\<rparr>)
      | CloseRejects e \<Rightarrow>
          Inr (m\<lparr>closeLog := closeLog m @ [c],
                unhandledRejections := unhandledRejections m @ [e]\<rparr>)
      | CloseThrows e \<Rightarrow> Inl e)"

definition dispose :: "mcp_env \<Rightarrow> server_id \<Rightarrow> mcp_manager \<Rightarrow> thrown + mcp_manager" where
  "dispose env serverId m =
     (case (case clients m serverId of
              Some c \<Rightarrow>
                (case try_catch (close_client env c m)
                        (\<lambda>error. Inr (m\<lparr>closeLog := closeLog m @ [c],
                                        errorLog := errorLog m @ [error]\<rparr>)) of
                   Inl e \<Rightarrow> Inl e
                 | Inr m1 \<Rightarrow> Inr (m1\<lparr>clients := (clients m1)(serverId := None)\<rparr>))
            | None \<Rightarrow> Inr m) of
        Inl e \<Rightarrow> Inl e
      | Inr m2 \<Rightarrow>
          Inr (m2\<lparr>initializingClients := (initializingClients m2)(serverId := None)\<rparr>))"

text \<open>
  Several \<^verbatim>\<open>getClient\<close> calls arriving one after the other, each running up to its
  first suspension before the next arrives, none of the promises settling meanwhile.
\<close>

fun getClient_calls :: "server_id list \<Rightarrow> mcp_manager \<Rightarrow> call_result list \<times> mcp_manager" where
  "getClient_calls [] m = ([], m)"
| "getClient_calls (serverId # rest) m =
     (let (r, m1) = getClient_call serverId m;
          (rs, m2) = getClient_calls rest m1
      in (r # rs, m2))"

text \<open>
  What the promise returned by a \<^verbatim>\<open>getClient\<close> call holds in state \<open>m\<close>. A sharing caller
  was handed the in-flight promise itself. The owner gets what its continuation returns
  or rethrows.
\<close>

definition caller_receives :: "mcp_manager \<Rightarrow> call_result \<Rightarrow> settlement" where
  "caller_receives m r =
     (case r of
        Returned c \<Rightarrow> Fulfilled c
      | Shares p \<Rightarrow> promise_state m p
      | Owns p \<Rightarrow>
          (case getClient_resume (fst (promises m ! p)) p m of
             None \<Rightarrow> Pending
           | Some (Inr c, _) \<Rightarrow> Fulfilled c
           | Some (Inl e, _) \<Rightarrow> Rejected e))"

definition init_outcome :: "mcp_env \<Rightarrow> server_id \<Rightarrow> settlement" where
  "init_outcome env serverId =
     (case snd (initializeClient env serverId) of Inr c \<Rightarrow> Fulfilled c | Inl e \<Rightarrow> Rejected e)"

definition attempts :: "mcp_manager \<Rightarrow> server_id \<Rightarrow> nat" where
  "attempts m serverId = length (filter (\<lambda>i. i = serverId) (initLog m))"

text \<open>
  The steps at which \<^verbatim>\<open>initializeClient\<close> gives up control. A run fails synchronously
  when it ends in an error without having passed one of them.
\<close>

definition is_suspension :: "init_event \<Rightarrow> bool" where
  "is_suspension e =
     (case e of AwaitDbSelect _ \<Rightarrow> True | AwaitPromiseRace \<Rightarrow> True | _ \<Rightarrow> False)"

definition fails_synchronously :: "init_event list \<times> (thrown + client_ref) \<Rightarrow> bool" where
  "fails_synchronously run =
     (case snd run of Inl e \<Rightarrow> \<not> list_ex is_suspension (fst run) | Inr c \<Rightarrow> False)"

text \<open>Has the run reached the client factory, the timer or the race?\<close>

definition race_begins :: "init_event list \<Rightarrow> bool" where
  "race_begins evs =
     list_ex (\<lambda>e. case e of CreateMCPClient _ \<Rightarrow> True | SetTimeout _ \<Rightarrow> True
                        | AwaitPromiseRace \<Rightarrow> True | _ \<Rightarrow> False) evs"

section \<open>JavaScript strings\<close>

text \<open>
  A \<open>char\<close> stands for one UTF-16 code unit below 256; text outside that range is
  outside the model. \<^verbatim>\<open>trim\<close> removes the white space and line terminators of that
  range from both ends; \<^verbatim>\<open>toLowerCase\<close> maps A-Z and the upper-case letters of Latin-1.
\<close>

definition is_space :: "char \<Rightarrow> bool" where
  "is_space c = (of_char c \<in> {9, 10, 11, 12, 13, 32, 160 :: nat})"

definition trim :: "string \<Rightarrow> string" where
  "trim s = rev (dropWhile is_space (rev (dropWhile is_space s)))"

definition lower_char :: "char \<Rightarrow> char" where
  "lower_char c =
     (let n = (of_char c :: nat)
      in if (65 \<le> n \<and> n \<le> 90) \<or> (192 \<le> n \<and> n \<le> 222 \<and> n \<noteq> 215)
         then char_of (n + 32) else c)"

definition toLowerCase :: "string \<Rightarrow> string" where
  "toLowerCase s = map lower_char s"

text \<open>\<^verbatim>\<open>s.includes(t)\<close>: \<open>t\<close> occurs in \<open>s\<close> as a contiguous block.\<close>

fun starts_with :: "string \<Rightarrow> string \<Rightarrow> bool" where
  "starts_with s [] = True"
| "starts_with [] (y # ys) = False"
| "starts_with (x # xs) (y # ys) = (x = y \<and> starts_with xs ys)"

fun includes_str :: "string \<Rightarrow> string \<Rightarrow> bool" where
  "includes_str [] t = (t = [])"
| "includes_str (x # xs) t = (starts_with (x # xs) t \<or> includes_str xs t)"

text \<open>\<^verbatim>\<open>s.split("\n")\<close> and \<^verbatim>\<open>s.split(/\r?\n/)\<close>: never an empty array.\<close>

definition cons_head :: "char \<Rightarrow> string list \<Rightarrow> string list" where
  "cons_head x ls = (case ls of [] \<Rightarrow> [[x]] | l # rest \<Rightarrow> (x # l) # rest)"

fun split_newline :: "string \<Rightarrow> string list" where
  "split_newline [] = [[]]"
| "split_newline (x # xs) =
     (if x = CHR 0x0A then [] # split_newline xs else cons_head x (split_newline xs))"

fun split_lines :: "string \<Rightarrow> string list" where
  "split_lines [] = [[]]"
| "split_lines [x] = (if x = CHR 0x0A then [[], []] else [[x]])"
| "split_lines (x # y # xs) =
     (if x = CHR 0x0D \<and> y = CHR 0x0A then [] # split_lines xs
      else if x = CHR 0x0A then [] # split_lines (y # xs)
      else cons_head x (split_lines (y # xs)))"

section \<open>The executable locator (gemini\_cli\_detector.ts)\<close>

record command_result =
  cmd_ok :: bool
  cmd_stdout :: string
  cmd_stderr :: string

text \<open>
  What the locator reads from outside: environment variables, the platform, the result
  of a spawned command, and \<^verbatim>\<open>access(path, X_OK)\<close>. The answers are taken to be the
  same throughout one \<^verbatim>\<open>resolveCliPath\<close> call.
\<close>

record detect_env =
  getEnvVar :: "string \<Rightarrow> string option"
  process_env_PATH :: "string option"
  process_platform :: string
  runCommand :: "string \<Rightarrow> string list \<Rightarrow> nat \<Rightarrow> command_result"
  access_X_OK :: "string \<Rightarrow> bool"

record detect_options =
  explicitPath :: "string option"
  autoDetect :: "bool option"

record resolved_path =
  path :: "string option"
  path_error :: "string option"

definition DEFAULT_TIMEOUT :: nat where
  "DEFAULT_TIMEOUT = 5000"

definition backslash :: char where
  "backslash = CHR 0x5C"



definition findInPath :: "detect_env \<Rightarrow> string \<Rightarrow> string option" where
  "findInPath env binary =
     (let whichCommand = (if process_platform env = ''win32'' then ''where'' else ''which'');
          result = runCommand env whichCommand [binary] DEFAULT_TIMEOUT
      in if cmd_ok result then
           (let resolvedPath = hd (map trim (split_newline (cmd_stdout result)))
            in if resolvedPath \<noteq> [] then Some resolvedPath else None)
         else None)"







section \<open>Model routing (getRegularModelClient, google and openai cases)\<close>

datatype connection_mode = Api | Cli | Auto

text \<open>
  \<^verbatim>\<open>GoogleProviderSetting\<close> and \<^verbatim>\<open>OpenAIProviderSetting\<close>, every field optional; a missing
  settings object is the record with every field \<open>None\<close>.
\<close>

record provider_setting =
  connectionMode :: "connection_mode option"
  cliFallbackToApi :: "bool option"
  cliPreferredModels :: "string list option"
  cliTimeoutMs :: "nat option"
  cliAutoDetect :: "bool option"
  cliPath :: "string option"
  apiKey_value :: "string option"

record cli_info =
  info_path :: "string option"
  isAvailable :: bool
  errorMessage :: "string option"

type_synonym model_ref = nat

record model_client =
  model :: model_ref
  builtinProviderId :: "string option"

text \<open>
  What routing calls: the two detectors, the two CLI model factories, the two remote
  factories (api key, then model name) and the environment variables.
\<close>

record routing_env =
  detectGeminiCli :: "detect_options \<Rightarrow> cli_info"
  detectCodexCli :: "detect_options \<Rightarrow> cli_info"
  createGeminiCliModel :: "string \<Rightarrow> string \<Rightarrow> nat option \<Rightarrow> thrown + model_ref"
  createCodexCliModel :: "string \<Rightarrow> string \<Rightarrow> nat option \<Rightarrow> string option \<Rightarrow> thrown + model_ref"
  createGoogle :: "string \<Rightarrow> string \<Rightarrow> thrown + model_ref"
  createOpenAI :: "string \<Rightarrow> string \<Rightarrow> thrown + model_ref"
  readEnvVar :: "string \<Rightarrow> string option"

datatype route_event = EnsureCli | CreateCliModel string | CreateApiModel string

definition ensureGeminiCliAvailable :: "routing_env \<Rightarrow> detect_options \<Rightarrow> thrown + cli_info" where
  "ensureGeminiCliAvailable env options =
     (let info = detectGeminiCli env options
      in if \<not> isAvailable info \<or> \<not> truthy (info_path info) then
           Inl (ErrorObj (case errorMessage info of
                            Some msg \<Rightarrow> msg
                          | None \<Rightarrow> ''Gemini CLI is not available. Install it from https://github.com/google-gemini/gemini-cli and run `gemini auth login`.''))
         else Inr info)"

definition ensureCodexCliAvailable :: "routing_env \<Rightarrow> detect_options \<Rightarrow> thrown + cli_info" where
  "ensureCodexCliAvailable env options =
     (let info = detectCodexCli env options
      in if \<not> isAvailable info \<or> \<not> truthy (info_path info) then
           Inl (ErrorObj (case errorMessage info of
                            Some msg \<Rightarrow> msg
                          | None \<Rightarrow> ''Codex CLI is not available. Install it from https://github.com/openai/codex and ensure it is on your PATH.''))
         else Inr info)"

definition selectCliModel :: "string \<Rightarrow> string list option \<Rightarrow> string" where
  "selectCliModel requestedModel preferredModels =
     (case preferredModels of
        Some (p # ps) \<Rightarrow> if requestedModel \<in> set (p # ps) then requestedModel else p
      | _ \<Rightarrow> requestedModel)"

text \<open>\<^verbatim>\<open>value || (envVarName ? getEnvVar(envVarName) : undefined)\<close>\<close>

definition resolve_apiKey :: "routing_env \<Rightarrow> provider_setting \<Rightarrow> string option \<Rightarrow> string option" where
  "resolve_apiKey env setting envVarName =
     (if truthy (apiKey_value setting) then apiKey_value setting
      else (case envVarName of
              None \<Rightarrow> None
            | Some n \<Rightarrow> if n = [] then None else readEnvVar env n))"

text \<open>
  The message of the error thrown when fallback is not allowed:
  \<^verbatim>\<open>error instanceof Error ? error.message : JSON.stringify(error ?? dflt)\<close>.
\<close>

definition rethrown_message :: "string \<Rightarrow> thrown \<Rightarrow> string" where
  "rethrown_message dflt e =
     (case e of
        ErrorObj msg \<Rightarrow> msg
      | NonErrorValue j \<Rightarrow> j
      | Nullish \<Rightarrow> [CHR 0x22] @ dflt @ [CHR 0x22])"

text \<open>The \<^verbatim>\<open>try\<close> block of the google case: the local path.\<close>

definition gemini_cli_attempt ::
  "routing_env \<Rightarrow> provider_setting \<Rightarrow> string \<Rightarrow> route_event list \<times> (thrown + model_client)" where
  "gemini_cli_attempt env googleSettings modelName =
     (case ensureGeminiCliAvailable env
             \<lparr>explicitPath = cliPath googleSettings,
              autoDetect = Some (case cliAutoDetect googleSettings of None \<Rightarrow> True | Some b \<Rightarrow> b)\<rparr> of
        Inl e \<Rightarrow> ([EnsureCli], Inl e)
      | Inr cliInfo \<Rightarrow>
          if \<not> truthy (info_path cliInfo) then
            ([EnsureCli], Inl (ErrorObj ''Gemini CLI path could not be resolved.''))
          else
            let cliModelId = selectCliModel modelName (cliPreferredModels googleSettings)
            in ([EnsureCli, CreateCliModel cliModelId],
                (case createGeminiCliModel env cliModelId (the (info_path cliInfo))
                        (cliTimeoutMs googleSettings) of
                   Inl e \<Rightarrow> Inl e
                 | Inr cliModel \<Rightarrow>
                     Inr \<lparr>model = cliModel, builtinProviderId = Some ''google''\<rparr>)))"

definition google_api_client ::
  "routing_env \<Rightarrow> string option \<Rightarrow> string \<Rightarrow> route_event list \<times> (thrown + model_client)" where
  "google_api_client env apiKey modelName =
     (if \<not> truthy apiKey then
        ([], Inl (ErrorObj ''Gemini API key is not configured. Provide it in Settings or set GEMINI_API_KEY.''))
      else
        ([CreateApiModel modelName],
         (case createGoogle env (the apiKey) modelName of
            Inl e \<Rightarrow> Inl e
          | Inr m \<Rightarrow> Inr \<lparr>model = m, builtinProviderId = Some ''google''\<rparr>)))"

definition getRegularModelClient_google ::
  "routing_env \<Rightarrow> provider_setting \<Rightarrow> string option \<Rightarrow> string
     \<Rightarrow> route_event list \<times> (thrown + model_client)" where
  "getRegularModelClient_google env googleSettings envVarName modelName =
     (let apiKey = resolve_apiKey env googleSettings envVarName;
          mode = (case connectionMode googleSettings of None \<Rightarrow> Api | Some m \<Rightarrow> m);
          fallbackToApi = (case cliFallbackToApi googleSettings of None \<Rightarrow> True | Some b \<Rightarrow> b)
      in if mode \<noteq> Api then
           (case gemini_cli_attempt env googleSettings modelName of
              (evs, Inr client) \<Rightarrow> (evs, Inr client)
            | (evs, Inl error) \<Rightarrow>
                let allowFallback = (mode = Auto \<or> fallbackToApi)
                in if \<not> allowFallback then
                     (evs, Inl (ErrorObj (rethrown_message ''Gemini CLI failed'' error)))
                   else if \<not> truthy apiKey then
                     (evs, Inl (ErrorObj ''Gemini CLI is unavailable and no Gemini API key is configured for fallback. Provide an API key or fix the CLI configuration.''))
                   else
                     (let (evs2, r) = google_api_client env apiKey modelName
                      in (evs @ evs2, r)))
         else google_api_client env apiKey modelName)"

text \<open>The openai case: the same shape, with one more guard before the remote path.\<close>

definition codex_cli_attempt ::
  "routing_env \<Rightarrow> provider_setting \<Rightarrow> string option \<Rightarrow> string
     \<Rightarrow> route_event list \<times> (thrown + model_client)" where
  "codex_cli_attempt env openAiSettings apiKey modelName =
     (case ensureCodexCliAvailable env
             \<lparr>explicitPath = cliPath openAiSettings,
              autoDetect = Some (case cliAutoDetect openAiSettings of None \<Rightarrow> True | Some b \<Rightarrow> b)\<rparr> of
        Inl e \<Rightarrow> ([EnsureCli], Inl e)
      | Inr cliInfo \<Rightarrow>
          if \<not> truthy (info_path cliInfo) then
            ([EnsureCli], Inl (ErrorObj ''Codex CLI path could not be resolved.''))
          else
            let cliModelId = selectCliModel modelName (cliPreferredModels openAiSettings)
            in ([EnsureCli, CreateCliModel cliModelId],
                (case createCodexCliModel env cliModelId (the (info_path cliInfo))
                        (cliTimeoutMs openAiSettings) apiKey of
                   Inl e \<Rightarrow> Inl e
                 | Inr cliModel \<Rightarrow>
                     Inr \<lparr>model = cliModel, builtinProviderId = Some ''openai''\<rparr>)))"

definition openai_api_client ::
  "routing_env \<Rightarrow> connection_mode \<Rightarrow> bool \<Rightarrow> string option \<Rightarrow> string
     \<Rightarrow> route_event list \<times> (thrown + model_client)" where
  "openai_api_client env mode fallbackToApi apiKey modelName =
     (let shouldUseApiFallback = (mode = Api \<or> mode = Auto \<or> fallbackToApi)
      in if \<not> shouldUseApiFallback then
           ([], Inl (ErrorObj ''Codex CLI is not available and API fallback is disabled. Install the Codex CLI or enable fallback to continue.''))
         else if \<not> truthy apiKey then
           ([], Inl (ErrorObj ''OpenAI API key is required when using API mode or fallback. Provide it in Settings or set OPENAI_API_KEY.''))
         else
           ([CreateApiModel modelName],
            (case createOpenAI env (the apiKey) modelName of
               Inl e \<Rightarrow> Inl e
             | Inr m \<Rightarrow> Inr \<lparr>model = m, builtinProviderId = Some ''openai''\<rparr>)))"

definition getRegularModelClient_openai ::
  "routing_env \<Rightarrow> provider_setting \<Rightarrow> string option \<Rightarrow> string
     \<Rightarrow> route_event list \<times> (thrown + model_client)" where
  "getRegularModelClient_openai env openAiSettings envVarName modelName =
     (let apiKey = resolve_apiKey env openAiSettings envVarName;
          mode = (case connectionMode openAiSettings of None \<Rightarrow> Api | Some m \<Rightarrow> m);
          fallbackToApi = (case cliFallbackToApi openAiSettings of None \<Rightarrow> True | Some b \<Rightarrow> b)
      in if mode \<noteq> Api then
           (case codex_cli_attempt env openAiSettings apiKey modelName of
              (evs, Inr client) \<Rightarrow> (evs, Inr client)
            | (evs, Inl error) \<Rightarrow>
                let allowFallback = (mode = Auto \<or> fallbackToApi)
                in if \<not> allowFallback then
                     (evs, Inl (ErrorObj (rethrown_message ''Codex CLI failed'' error)))
                   else if \<not> truthy apiKey then
                     (evs, Inl (ErrorObj ''Codex CLI is unavailable and no OpenAI API key is configured for fallback. Provide an API key or fix the CLI configuration.''))
                   else
                     (let (evs2, r) = openai_api_client env mode fallbackToApi apiKey modelName
                      in (evs @ evs2, r)))
         else openai_api_client env mode fallbackToApi apiKey modelName)"

definition remote_attempted :: "route_event list \<Rightarrow> bool" where
  "remote_attempted evs = list_ex (\<lambda>e. case e of CreateApiModel _ \<Rightarrow> True | _ \<Rightarrow> False) evs"

definition local_attempted :: "route_event list \<Rightarrow> bool" where
  "local_attempted evs =
     list_ex (\<lambda>e. case e of EnsureCli \<Rightarrow> True | CreateCliModel _ \<Rightarrow> True | _ \<Rightarrow> False) evs"

section \<open>JSON values and \<^verbatim>\<open>JSON.parse\<close>\<close>

text \<open>
  A number keeps the text of its literal. An object keeps its members in source order;
  a property read takes the last member of that name, as \<^verbatim>\<open>JSON.parse\<close> lets a later
  duplicate win. \<open>JSON_parse\<close> is \<open>None\<close> where \<^verbatim>\<open>JSON.parse\<close> throws; a \<^verbatim>\<open>\u\<close> escape
  above 255 is outside the range of the model and is refused as well.
\<close>

datatype json =
    JNull | JBool bool | JNum string | JStr string
  | JArr "json list" | JObj "(string \<times> json) list"

definition is_json_ws :: "char \<Rightarrow> bool" where
  "is_json_ws c = (c = CHR '' '' \<or> c = CHR 0x09 \<or> c = CHR 0x0A \<or> c = CHR 0x0D)"

definition skip_ws :: "string \<Rightarrow> string" where
  "skip_ws s = dropWhile is_json_ws s"

definition is_digit :: "char \<Rightarrow> bool" where
  "is_digit c = (48 \<le> (of_char c :: nat) \<and> (of_char c :: nat) \<le> 57)"

definition hex_val :: "char \<Rightarrow> nat option" where
  "hex_val c =
     (let n = (of_char c :: nat)
      in if 48 \<le> n \<and> n \<le> 57 then Some (n - 48)
         else if 97 \<le> n \<and> n \<le> 102 then Some (n - 87)
         else if 65 \<le> n \<and> n \<le> 70 then Some (n - 55)
         else None)"

definition unescape :: "char \<Rightarrow> char option" where
  "unescape e =
     (if e = CHR 0x22 \<or> e = backslash \<or> e = CHR ''/'' then Some e
      else if e = CHR ''b'' then Some (CHR 0x08)
      else if e = CHR ''f'' then Some (CHR 0x0C)
      else if e = CHR ''n'' then Some (CHR 0x0A)
      else if e = CHR ''r'' then Some (CHR 0x0D)
      else if e = CHR ''t'' then Some (CHR 0x09)
      else None)"

fun parse_string_body :: "nat \<Rightarrow> string \<Rightarrow> (string \<times> string) option" where
  "parse_string_body 0 s = None"
| "parse_string_body (Suc n) [] = None"
| "parse_string_body (Suc n) (c # cs) =
     (if c = CHR 0x22 then Some ([], cs)
      else if c = backslash then
        (case cs of
           [] \<Rightarrow> None
         | e # es \<Rightarrow>
             if e = CHR ''u'' then
               (case map hex_val (take 4 es) of
                  [Some a, Some b, Some c3, Some d] \<Rightarrow>
                    (let code = ((a * 16 + b) * 16 + c3) * 16 + d
                     in if code < 256
                        then map_option (\<lambda>(t, r). (char_of code # t, r))
                               (parse_string_body n (drop 4 es))
                        else None)
                | _ \<Rightarrow> None)
             else
               (case unescape e of
                  None \<Rightarrow> None
                | Some d \<Rightarrow> map_option (\<lambda>(t, r). (d # t, r)) (parse_string_body n es)))
      else if (of_char c :: nat) < 32 then None
      else map_option (\<lambda>(t, r). (c # t, r)) (parse_string_body n cs))"

definition parse_number :: "string \<Rightarrow> (string \<times> string) option" where
  "parse_number s =
     (let sign = (if s \<noteq> [] \<and> hd s = CHR ''-'' then ''-'' else []);
          s1 = drop (length sign) s;
          ds = takeWhile is_digit s1;
          s2 = dropWhile is_digit s1
      in if ds = [] \<or> (length ds > 1 \<and> hd ds = CHR ''0'') then None
         else
           let hasFrac = (s2 \<noteq> [] \<and> hd s2 = CHR ''.'');
               fs = (if hasFrac then takeWhile is_digit (tl s2) else []);
               s3 = (if hasFrac then dropWhile is_digit (tl s2) else s2)
           in if hasFrac \<and> fs = [] then None
              else
                let hasExp = (s3 \<noteq> [] \<and> (hd s3 = CHR ''e'' \<or> hd s3 = CHR ''E''));
                    s4 = (if hasExp then tl s3 else s3);
                    esign = (if hasExp \<and> s4 \<noteq> [] \<and> (hd s4 = CHR ''+'' \<or> hd s4 = CHR ''-'')
                             then [hd s4] else []);
                    s5 = drop (length esign) s4;
                    es = (if hasExp then takeWhile is_digit s5 else []);
                    s6 = (if hasExp then dropWhile is_digit s5 else s3)
                in if hasExp \<and> es = [] then None
                   else Some (take (length s - length s6) s, s6))"

fun parse_value :: "nat \<Rightarrow> string \<Rightarrow> (json \<times> string) option"
  and parse_elements :: "nat \<Rightarrow> string \<Rightarrow> (json list \<times> string) option"
  and parse_members :: "nat \<Rightarrow> string \<Rightarrow> ((string \<times> json) list \<times> string) option"
where
  "parse_value 0 s = None"
| "parse_value (Suc n) s =
     (case skip_ws s of
        [] \<Rightarrow> None
      | c # cs \<Rightarrow>
          if c = CHR ''{'' then
            (case skip_ws cs of
               [] \<Rightarrow> None
             | d # ds \<Rightarrow>
                 if d = CHR ''}'' then Some (JObj [], ds)
                 else map_option (\<lambda>(ms, r). (JObj ms, r)) (parse_members n (d # ds)))
          else if c = CHR ''['' then
            (case skip_ws cs of
               [] \<Rightarrow> None
             | d # ds \<Rightarrow>
                 if d = CHR '']'' then Some (JArr [], ds)
                 else map_option (\<lambda>(vs, r). (JArr vs, r)) (parse_elements n (d # ds)))
          else if c = CHR 0x22 then
            map_option (\<lambda>(t, r). (JStr t, r)) (parse_string_body (Suc (length cs)) cs)
          else if starts_with (c # cs) ''true'' then Some (JBool True, drop 4 (c # cs))
          else if starts_with (c # cs) ''false'' then Some (JBool False, drop 5 (c # cs))
          else if starts_with (c # cs) ''null'' then Some (JNull, drop 4 (c # cs))
          else map_option (\<lambda>(l, r). (JNum l, r)) (parse_number (c # cs)))"
| "parse_elements 0 s = None"
| "parse_elements (Suc n) s =
     (case parse_value n s of
        None \<Rightarrow> None
      | Some (v, r) \<Rightarrow>
          (case skip_ws r of
             [] \<Rightarrow> None
           | d # ds \<Rightarrow>
               if d = CHR '']'' then Some ([v], ds)
               else if d = CHR '','' then
                 map_option (\<lambda>(vs, r'). (v # vs, r')) (parse_elements n ds)
               else None))"
| "parse_members 0 s = None"
| "parse_members (Suc n) s =
     (case skip_ws s of
        [] \<Rightarrow> None
      | q # qs \<Rightarrow>
          if q \<noteq> CHR 0x22 then None
          else
            (case parse_string_body (Suc (length qs)) qs of
               None \<Rightarrow> None
             | Some (k, r) \<Rightarrow>
                 (case skip_ws r of
                    [] \<Rightarrow> None
                  | col # r2 \<Rightarrow>
                      if col \<noteq> CHR '':'' then None
                      else
                        (case parse_value n r2 of
                           None \<Rightarrow> None
                         | Some (v, r3) \<Rightarrow>
                             (case skip_ws r3 of
                                [] \<Rightarrow> None
                              | d # ds \<Rightarrow>
                                  if d = CHR ''}'' then Some ([(k, v)], ds)
                                  else if d = CHR '','' then
                                    map_option (\<lambda>(ms, r'). ((k, v) # ms, r'))
                                      (parse_members n ds)
                                  else None)))))"

definition JSON_parse :: "string \<Rightarrow> json option" where
  "JSON_parse s =
     (case parse_value (2 * length s + 2) s of
        None \<Rightarrow> None
      | Some (v, r) \<Rightarrow> if skip_ws r = [] then Some v else None)"

text \<open>
  \<^verbatim>\<open>JSON.parse\<close> turns a number literal into the nearest double, ties to even. The
  literal stands for \<open>d * 10 ^ e\<close>, with \<open>d\<close> the digits of its integer and fraction
  parts; the double is zero exactly when that magnitude is at most \<open>2 ^ -1075\<close>, half the
  smallest subnormal.
\<close>

definition digits_value :: "string \<Rightarrow> int" where
  "digits_value ds = foldl (\<lambda>acc c. acc * 10 + ((of_char c :: int) - 48)) 0 ds"

definition number_is_zero :: "string \<Rightarrow> bool" where
  "number_is_zero l =
     (let s1 = (if l \<noteq> [] \<and> hd l = CHR ''-'' then tl l else l);
          ip = takeWhile is_digit s1;
          s2 = dropWhile is_digit s1;
          hasFrac = (s2 \<noteq> [] \<and> hd s2 = CHR ''.'');
          fp = (if hasFrac then takeWhile is_digit (tl s2) else []);
          s3 = (if hasFrac then dropWhile is_digit (tl s2) else s2);
          hasExp = (s3 \<noteq> [] \<and> (hd s3 = CHR ''e'' \<or> hd s3 = CHR ''E''));
          s4 = (if hasExp then tl s3 else []);
          negExp = (s4 \<noteq> [] \<and> hd s4 = CHR ''-'');
          s5 = (if s4 \<noteq> [] \<and> (hd s4 = CHR ''+'' \<or> hd s4 = CHR ''-'') then tl s4 else s4);
          ex = digits_value (takeWhile is_digit s5);
          d = digits_value (ip @ fp);
          e = (if negExp then - ex else ex) - int (length fp)
      in d = 0 \<or> (e < 0 \<and> d * 2 ^ 1075 \<le> 10 ^ nat (- e)))"

text \<open>\<^verbatim>\<open>v?.name\<close>: \<open>None\<close> is undefined. Truthiness of a parsed value.\<close>

definition get_prop :: "json \<Rightarrow> string \<Rightarrow> json option" where
  "get_prop v name = (case v of JObj ms \<Rightarrow> map_of (rev ms) name | _ \<Rightarrow> None)"

definition js_truthy :: "json \<Rightarrow> bool" where
  "js_truthy v =
     (case v of
        JNull \<Rightarrow> False
      | JBool b \<Rightarrow> b
      | JNum l \<Rightarrow> \<not> number_is_zero l
      | JStr t \<Rightarrow> t \<noteq> []
      | _ \<Rightarrow> True)"

section \<open>The protocol bridges (gemini\_cli\_provider.ts, codex\_cli\_provider.ts)\<close>

text \<open>
  \<^verbatim>\<open>CliExecutionResult\<close>; \<open>error\<close> is the message of the \<^verbatim>\<open>Error\<close> of a failed launch.
  A synthesized \<^verbatim>\<open>Response\<close> keeps the JSON value that the code stringifies; an event
  stream keeps, for each \<^verbatim>\<open>data:\<close> line, its JSON value or the \<^verbatim>\<open>[DONE]\<close> marker.
\<close>

record cli_execution_result =
  success :: bool
  stdout :: string
  stderr :: string
  error :: "string option"

datatype sse = SseData json | SseDone

datatype response_body = JsonBody json | EventStream "sse list"

record response =
  status :: nat
  content_type :: string
  body :: response_body

record cli_usage =
  inputTokens :: "nat option"
  outputTokens :: "nat option"
  totalTokens :: "nat option"

definition join_with :: "string \<Rightarrow> string list \<Rightarrow> string" where
  "join_with sep parts = (case parts of [] \<Rightarrow> [] | p # ps \<Rightarrow> p @ concat (map (\<lambda>q. sep @ q) ps))"

definition error_response :: "nat \<Rightarrow> (string \<times> json) list \<Rightarrow> response" where
  "error_response st props =
     \<lparr>status = st, content_type = ''application/json'',
      body = JsonBody (JObj [(''error'', JObj props)])\<rparr>"

subsection \<open>Gemini\<close>

definition tryParseError :: "string \<Rightarrow> json option" where
  "tryParseError output =
     (if output = [] then None
      else
        (case JSON_parse output of
           None \<Rightarrow> None
         | Some parsed \<Rightarrow>
             (case get_prop parsed ''error'' of
                None \<Rightarrow> None
              | Some err \<Rightarrow>
                  (case get_prop err ''message'' of
                     None \<Rightarrow> None
                   | Some m \<Rightarrow> if js_truthy m then Some m else None))))"

definition detectQuotaMessage_gemini :: "string \<Rightarrow> string option" where
  "detectQuotaMessage_gemini rawMessage =
     (if rawMessage = [] then None
      else
        let lower = toLowerCase rawMessage
        in if includes_str lower ''quota exceeded''
              \<or> includes_str lower ''rate_limit_exceeded''
              \<or> includes_str lower ''resource_exhausted''
           then
             (let lines = split_lines rawMessage;
                  quotaLine =
                    (case find (\<lambda>line. includes_str (toLowerCase line) ''quota exceeded'') lines of
                       Some l \<Rightarrow> l
                     | None \<Rightarrow>
                         (case find (\<lambda>line. includes_str (toLowerCase line) ''rate_limit_exceeded'')
                                 lines of
                            Some l \<Rightarrow> l
                          | None \<Rightarrow> rawMessage))
              in Some (trim quotaLine))
           else None)"

definition gemini_errorPayload_message :: "cli_execution_result \<Rightarrow> json" where
  "gemini_errorPayload_message execResult =
     (case tryParseError (stdout execResult) of
        Some m \<Rightarrow> m
      | None \<Rightarrow>
          (case tryParseError (stderr execResult) of
             Some m \<Rightarrow> m
           | None \<Rightarrow>
               JStr (if trim (stderr execResult) \<noteq> [] then trim (stderr execResult)
                     else if trim (stdout execResult) \<noteq> [] then trim (stdout execResult)
                     else if truthy (error execResult) then the (error execResult)
                     else ''Gemini CLI failed'')))"

definition gemini_combinedOutput :: "cli_execution_result \<Rightarrow> string" where
  "gemini_combinedOutput execResult =
     join_with [CHR 0x0A] (filter (\<lambda>t. t \<noteq> []) [stderr execResult, stdout execResult])"

text \<open>
  The branch \<^verbatim>\<open>if (!execResult.success)\<close> of the fetch function. A message taken from
  parsed JSON that is not a string has no \<^verbatim>\<open>toLowerCase\<close>: the call throws.
\<close>

definition gemini_failure_response :: "cli_execution_result \<Rightarrow> thrown + response" where
  "gemini_failure_response execResult =
     (let message = gemini_errorPayload_message execResult;
          combinedOutput = gemini_combinedOutput execResult
      in case message of
           JStr text \<Rightarrow>
             (let quotaMessage =
                    (case detectQuotaMessage_gemini text of
                       Some q \<Rightarrow> Some q
                     | None \<Rightarrow> detectQuotaMessage_gemini combinedOutput)
              in if truthy quotaMessage then
                   Inr (error_response 429
                          [(''message'', JStr (the quotaMessage)),
                           (''type'', JStr ''rate_limit_exceeded''),
                           (''code'', JStr ''quota_exceeded'')])
                 else
                   Inr (error_response 500
                          [(''message'', message), (''type'', JStr ''gemini_cli_error'')]))
         | _ \<Rightarrow> Inl (ErrorObj ''rawMessage.toLowerCase is not a function''))"

definition usagePayload :: "cli_usage option \<Rightarrow> (string \<times> json) list" where
  "usagePayload usage =
     (case usage of
        None \<Rightarrow> []
      | Some u \<Rightarrow>
          let nonzero = (\<lambda>v. case v of None \<Rightarrow> False | Some n \<Rightarrow> n \<noteq> (0::nat));
              dflt = (\<lambda>v. case v of None \<Rightarrow> (0::nat) | Some n \<Rightarrow> n)
          in if nonzero (inputTokens u) \<or> nonzero (outputTokens u) \<or> nonzero (totalTokens u) then
               [(''usage'', JObj
                   [(''prompt_tokens'', JNum (string_of_nat (dflt (inputTokens u)))),
                    (''completion_tokens'', JNum (string_of_nat (dflt (outputTokens u)))),
                    (''total_tokens'', JNum (string_of_nat
                       (case totalTokens u of
                          Some t \<Rightarrow> t
                        | None \<Rightarrow> dflt (inputTokens u) + dflt (outputTokens u))))])]
             else [])"

text \<open>One \<^verbatim>\<open>chat.completion.chunk\<close> object; \<open>now\<close> is \<^verbatim>\<open>Math.floor(Date.now() / 1000)\<close>.\<close>

definition chunk ::
  "string \<Rightarrow> nat \<Rightarrow> string \<Rightarrow> (string \<times> json) list \<Rightarrow> json \<Rightarrow> (string \<times> json) list \<Rightarrow> json" where
  "chunk prefix now modelId delta finish extra =
     JObj ([(''id'', JStr (prefix @ string_of_nat now)),
            (''object'', JStr ''chat.completion.chunk''),
            (''created'', JNum (string_of_nat now)),
            (''model'', JStr modelId),
            (''choices'', JArr [JObj [(''index'', JNum ''0''),
                                     (''delta'', JObj delta),
                                     (''finish_reason'', finish)]])] @ extra)"

definition completion ::
  "string \<Rightarrow> nat \<Rightarrow> string \<Rightarrow> string \<Rightarrow> (string \<times> json) list \<Rightarrow> json" where
  "completion prefix now modelId text extra =
     JObj ([(''id'', JStr (prefix @ string_of_nat now)),
            (''object'', JStr ''chat.completion''),
            (''created'', JNum (string_of_nat now)),
            (''model'', JStr modelId),
            (''choices'', JArr [JObj [(''index'', JNum ''0''),
                                     (''message'', JObj [(''role'', JStr ''assistant''),
                                                        (''content'', JStr text)]),
                                     (''finish_reason'', JStr ''stop'')]])] @ extra)"

definition createStreamingResponse_gemini ::
  "nat \<Rightarrow> string \<Rightarrow> cli_usage option \<Rightarrow> string \<Rightarrow> response" where
  "createStreamingResponse_gemini now text usage modelId =
     \<lparr>status = 200, content_type = ''text/event-stream'',
      body = EventStream
        [SseData (chunk ''gemini-cli-'' now modelId [(''role'', JStr ''assistant'')] JNull []),
         SseData (chunk ''gemini-cli-'' now modelId [(''content'', JStr text)] JNull []),
         SseData (chunk ''gemini-cli-'' now modelId [] (JStr ''stop'') (usagePayload usage)),
         SseDone]\<rparr>"

definition createJsonResponse_gemini ::
  "nat \<Rightarrow> string \<Rightarrow> cli_usage option \<Rightarrow> string \<Rightarrow> response" where
  "createJsonResponse_gemini now text usage modelId =
     \<lparr>status = 200, content_type = ''application/json'',
      body = JsonBody (completion ''gemini-cli-'' now modelId text (usagePayload usage))\<rparr>"

text \<open>
  The fetch function that \<^verbatim>\<open>createCliFetch\<close> returns, from the execution result on.
  \<open>parsed\<close> is what \<^verbatim>\<open>parseCliJson(execResult.stdout)\<close> gives, taken as given.
\<close>

definition createCliFetch ::
  "nat \<Rightarrow> string \<Rightarrow> bool \<Rightarrow> string \<times> cli_usage option \<Rightarrow> cli_execution_result
     \<Rightarrow> thrown + response" where
  "createCliFetch now modelId isStreaming parsed execResult =
     (if \<not> success execResult then gemini_failure_response execResult
      else
        (let (text, usage) = parsed
         in if isStreaming then Inr (createStreamingResponse_gemini now text usage modelId)
            else Inr (createJsonResponse_gemini now text usage modelId)))"

subsection \<open>Codex\<close>

definition detectQuotaMessage_codex :: "string \<Rightarrow> string option" where
  "detectQuotaMessage_codex rawMessage =
     (if rawMessage = [] then None
      else
        let normalized = toLowerCase rawMessage
        in if includes_str normalized ''rate limit''
              \<or> includes_str normalized ''quota''
              \<or> includes_str normalized ''429''
           then
             Some (case find (\<lambda>line. length line > 0) (map trim (split_lines rawMessage)) of
                     Some l \<Rightarrow> l
                   | None \<Rightarrow> ''OpenAI quota exceeded.'')
           else None)"

definition codex_diagnostic :: "cli_execution_result \<Rightarrow> string" where
  "codex_diagnostic execResult =
     (if trim (stderr execResult) \<noteq> [] then trim (stderr execResult)
      else if trim (stdout execResult) \<noteq> [] then trim (stdout execResult)
      else if truthy (error execResult) then the (error execResult)
      else ''Codex CLI failed'')"

definition codex_unauthorized_text :: string where
  "codex_unauthorized_text =
     ''Codex CLI returned 401 Unauthorized. Run `codex login` in a terminal (with the same account) or configure an OpenAI API key in Settings to use Codex.''"

definition codex_failure_response :: "cli_execution_result \<Rightarrow> response" where
  "codex_failure_response execResult =
     (let quotaMessage =
            (case detectQuotaMessage_codex (stderr execResult) of
               Some q \<Rightarrow> Some q
             | None \<Rightarrow> detectQuotaMessage_codex (stdout execResult))
      in if truthy quotaMessage then
           error_response 429
             [(''message'', JStr (the quotaMessage)),
              (''type'', JStr ''rate_limit_exceeded''),
              (''code'', JStr ''quota_exceeded'')]
         else
           let unauthorizedMessage =
                 (if includes_str (stderr execResult) ''401'' \<or> includes_str (stdout execResult) ''401''
                  then Some codex_unauthorized_text else None);
               message = codex_diagnostic execResult
           in (case unauthorizedMessage of
                 Some u \<Rightarrow>
                   error_response 401
                     [(''message'', JStr u), (''type'', JStr ''codex_cli_error''),
                      (''code'', JStr ''unauthorized'')]
               | None \<Rightarrow>
                   error_response 500
                     [(''message'', JStr message), (''type'', JStr ''codex_cli_error'')]))"

definition createStreamingResponse_codex :: "nat \<Rightarrow> string \<Rightarrow> string \<Rightarrow> response" where
  "createStreamingResponse_codex now text modelId =
     \<lparr>status = 200, content_type = ''text/event-stream'',
      body = EventStream
        [SseData (chunk ''codex-cli-'' now modelId [(''role'', JStr ''assistant'')] JNull []),
         SseData (chunk ''codex-cli-'' now modelId [(''content'', JStr text)] JNull []),
         SseData (chunk ''codex-cli-'' now modelId [] (JStr ''stop'') []),
         SseDone]\<rparr>"

definition createJsonResponse_codex :: "nat \<Rightarrow> string \<Rightarrow> string \<Rightarrow> response" where
  "createJsonResponse_codex now text modelId =
     \<lparr>status = 200, content_type = ''application/json'',
      body = JsonBody (completion ''codex-cli-'' now modelId text [])\<rparr>"

text \<open>
  The fetch function that \<^verbatim>\<open>createCodexCliFetch\<close> returns, from the execution result on.
  \<open>parsed\<close> is what \<^verbatim>\<open>parseCodexEvents(execResult.stdout)\<close> gives: the text and the
  message of an error event, if any.
\<close>

definition createCodexCliFetch ::
  "nat \<Rightarrow> string \<Rightarrow> bool \<Rightarrow> string \<times> string option \<Rightarrow> cli_execution_result \<Rightarrow> response" where
  "createCodexCliFetch now modelId isStreaming parsed execResult =
     (if \<not> success execResult then codex_failure_response execResult
      else
        (let (text, errorMessage) = parsed
         in if truthy errorMessage then
              error_response 500
                [(''message'', JStr (the errorMessage)), (''type'', JStr ''codex_cli_error'')]
            else if isStreaming then createStreamingResponse_codex now text modelId
            else createJsonResponse_codex now text modelId))"

subsection \<open>What a consumer reads from a response\<close>

definition first_choice :: "json \<Rightarrow> json option" where
  "first_choice j =
     (case get_prop j ''choices'' of Some (JArr (c # cs)) \<Rightarrow> Some c | _ \<Rightarrow> None)"

definition message_content :: "response \<Rightarrow> string option" where
  "message_content r =
     (case body r of
        JsonBody j \<Rightarrow>
          (case first_choice j of
             Some c \<Rightarrow>
               (case get_prop c ''message'' of
                  Some m \<Rightarrow> (case get_prop m ''content'' of Some (JStr t) \<Rightarrow> Some t | _ \<Rightarrow> None)
                | None \<Rightarrow> None)
           | None \<Rightarrow> None)
      | EventStream evs \<Rightarrow> None)"

definition delta_content :: "sse \<Rightarrow> string" where
  "delta_content ev =
     (case ev of
        SseDone \<Rightarrow> []
      | SseData j \<Rightarrow>
          (case first_choice j of
             Some c \<Rightarrow>
               (case get_prop c ''delta'' of
                  Some d \<Rightarrow> (case get_prop d ''content'' of Some (JStr t) \<Rightarrow> t | _ \<Rightarrow> [])
                | None \<Rightarrow> [])
           | None \<Rightarrow> []))"

definition streamed_content :: "response \<Rightarrow> string option" where
  "streamed_content r =
     (case body r of
        EventStream evs \<Rightarrow> Some (concat (map delta_content evs))
      | JsonBody j \<Rightarrow> None)"

definition error_code :: "response \<Rightarrow> json option" where
  "error_code r =
     (case body r of
        JsonBody j \<Rightarrow> (case get_prop j ''error'' of Some e \<Rightarrow> get_prop e ''code'' | None \<Rightarrow> None)
      | EventStream evs \<Rightarrow> None)"

definition error_message :: "response \<Rightarrow> json option" where
  "error_message r =
     (case body r of
        JsonBody j \<Rightarrow> (case get_prop j ''error'' of Some e \<Rightarrow> get_prop e ''message'' | None \<Rightarrow> None)
      | EventStream evs \<Rightarrow> None)"

subsection \<open>The quota indicators of each bridge\<close>

definition gemini_quota_text :: "string \<Rightarrow> bool" where
  "gemini_quota_text t =
     (includes_str (toLowerCase t) ''quota exceeded''
      \<or> includes_str (toLowerCase t) ''rate_limit_exceeded''
      \<or> includes_str (toLowerCase t) ''resource_exhausted'')"

definition codex_quota_text :: "string \<Rightarrow> bool" where
  "codex_quota_text t =
     (includes_str (toLowerCase t) ''rate limit''
      \<or> includes_str (toLowerCase t) ''quota''
      \<or> includes_str (toLowerCase t) ''429'')"

definition rate_limit_phrase :: string where
  "rate_limit_phrase = ''Rate limit exceeded, try again later (429)''"

text \<open>The output \<^verbatim>\<open>{"error":{"message":"backend unavailable"}}\<close>.\<close>

definition json_error_output :: string where
  "json_error_output =
     ''{'' @ [CHR 0x22] @ ''error'' @ [CHR 0x22] @ '':{'' @ [CHR 0x22] @ ''message'' @ [CHR 0x22]
       @ '':'' @ [CHR 0x22] @ ''backend unavailable'' @ [CHR 0x22] @ ''}}''"

definition failed_with :: "string \<Rightarrow> string \<Rightarrow> cli_execution_result" where
  "failed_with out err = \<lparr>success = False, stdout = out, stderr = err, error = None\<rparr>"

text \<open>The quota message each failure branch computes before testing it.\<close>

definition codex_quotaMessage :: "cli_execution_result \<Rightarrow> string option" where
  "codex_quotaMessage r =
     (case detectQuotaMessage_codex (stderr r) of
        Some q \<Rightarrow> Some q
      | None \<Rightarrow> detectQuotaMessage_codex (stdout r))"

definition gemini_quotaMessage :: "string \<Rightarrow> cli_execution_result \<Rightarrow> string option" where
  "gemini_quotaMessage text r =
     (case detectQuotaMessage_gemini text of
        Some q \<Rightarrow> Some q
      | None \<Rightarrow> detectQuotaMessage_gemini (gemini_combinedOutput r))"

definition unauthorized_text :: string where
  "unauthorized_text = ''HTTP 401 Unauthorized''"

text \<open>How a consumer classifies the events of a stream.\<close>

datatype chunk_kind = RoleChunk | ContentChunk string | StopChunk | EndOfStream | OtherChunk

definition chunk_kind :: "sse \<Rightarrow> chunk_kind" where
  "chunk_kind ev =
     (case ev of
        SseDone \<Rightarrow> EndOfStream
      | SseData j \<Rightarrow>
          (case first_choice j of
             None \<Rightarrow> OtherChunk
           | Some c \<Rightarrow>
               if get_prop c ''finish_reason'' = Some (JStr ''stop'') then StopChunk
               else
                 (case get_prop c ''delta'' of
                    None \<Rightarrow> OtherChunk
                  | Some d \<Rightarrow>
                      (case get_prop d ''content'' of
                         Some (JStr t) \<Rightarrow> ContentChunk t
                       | _ \<Rightarrow>
                           (case get_prop d ''role'' of
                              Some r \<Rightarrow> RoleChunk
                            | None \<Rightarrow> OtherChunk)))))"

definition stream_events :: "response \<Rightarrow> sse list" where
  "stream_events r = (case body r of EventStream evs \<Rightarrow> evs | JsonBody j \<Rightarrow> [])"

section \<open>Concrete environments used to instantiate the theorems\<close>

definition demo_env :: mcp_env where
  "demo_env =
     \<lparr>db_select = (\<lambda>i.
        if i = 1 then [\<lparr>row_id = 1, transport = Some ''stdio'', command = Some ''npx'',
                        args = Some [''-y'', ''server''], envJson = None, url = None\<rparr>]
        else if i = 2 then [\<lparr>row_id = 2, transport = Some ''stdio'', command = None,
                        args = None, envJson = None, url = None\<rparr>]
        else if i = 3 then [\<lparr>row_id = 3, transport = Some ''http'', command = None,
                        args = None, envJson = None, url = Some []\<rparr>]
        else if i = 4 then [\<lparr>row_id = 4, transport = Some ''sse'', command = None,
                        args = None, envJson = None, url = Some ''http://localhost:1/''\<rparr>]
        else []),
      url_parses = (\<lambda>u. True),
      race_result = (\<lambda>i t. if i = 1 then ClientCreated 7 else TimerFired),
      close_behaviour = (\<lambda>c. CloseRejects (ErrorObj ''transport already closed''))\<rparr>"

text \<open>A manager holding client 7 for server 1, ready.\<close>

definition ready_manager :: mcp_manager where
  "ready_manager = new_manager\<lparr>clients := [1 \<mapsto> 7]\<rparr>"

definition demo_detect_env :: detect_env where
  "demo_detect_env =
     \<lparr>getEnvVar = (\<lambda>n. if n = ''GEMINI_CLI_PATH'' then Some ''/opt/env/gemini'' else None),
      process_env_PATH = Some ''/usr/bin:/bin'',
      process_platform = ''linux'',
      runCommand = (\<lambda>c a t.
        if c = ''which'' \<and> a = [''gemini'']
        then \<lparr>cmd_ok = True, cmd_stdout = ''/home/u/.npm/bin/gemini'' @ [CHR 0x0A], cmd_stderr = []\<rparr>
        else \<lparr>cmd_ok = False, cmd_stdout = [], cmd_stderr = ''not found''\<rparr>),
      access_X_OK = (\<lambda>p. p = ''/opt/explicit/gemini'' \<or> p = ''/opt/env/gemini''
                          \<or> p = ''/home/u/.npm/bin/gemini'' \<or> p = ''/usr/bin/gemini'')\<rparr>"

definition demo_routing_env :: routing_env where
  "demo_routing_env =
     \<lparr>detectGeminiCli = (\<lambda>opts. \<lparr>info_path = None, isAvailable = False,
                                  errorMessage = Some ''Gemini CLI executable not found''\<rparr>),
      detectCodexCli = (\<lambda>opts. \<lparr>info_path = None, isAvailable = False,
                                  errorMessage = Some ''Codex CLI executable not found''\<rparr>),
      createGeminiCliModel = (\<lambda>m p t. Inr 1),
      createCodexCliModel = (\<lambda>m p t k. Inr 2),
      createGoogle = (\<lambda>k m. Inr 3),
      createOpenAI = (\<lambda>k m. Inr 4),
      readEnvVar = (\<lambda>n. None)\<rparr>"

definition demo_setting :: "connection_mode \<Rightarrow> bool \<Rightarrow> string option \<Rightarrow> provider_setting" where
  "demo_setting mode fallback key =
     \<lparr>connectionMode = Some mode, cliFallbackToApi = Some fallback, cliPreferredModels = None,
      cliTimeoutMs = None, cliAutoDetect = None, cliPath = None, apiKey_value = key\<rparr>"

section \<open>Disposal\<close>

lemma dispose_returns:
  "\<exists>m'. dispose env serverId m = Inr m'"
  by (simp add: dispose_def try_catch_def close_client_def
           split: option.splits sum.splits close_outcome.splits)

lemma dispose_removes:
  "dispose env serverId m = Inr m' \<Longrightarrow>
     clients m' serverId = None \<and> initializingClients m' serverId = None"
  by (auto simp: dispose_def try_catch_def close_client_def
           split: option.splits sum.splits close_outcome.splits)

lemma dispose_absent:
  "clients m serverId = None \<Longrightarrow> initializingClients m serverId = None \<Longrightarrow>
     dispose env serverId m = Inr m"
  by (simp add: dispose_def fun_upd_idem)

text \<open>
  \<^verbatim>\<open>dispose\<close> itself always returns and leaves the identity in neither map; on an
  identity in neither map it changes nothing, so a second call is a no-op.
\<close>

lemma dispose_always_returns:
  "\<exists>m'. dispose env serverId m = Inr m'
        \<and> clients m' serverId = None \<and> initializingClients m' serverId = None
        \<and> dispose env serverId m' = Inr m'
        \<and> (clients m serverId = None \<and> initializingClients m serverId = None \<longrightarrow> m' = m)"
proof -
  obtain m' where d: "dispose env serverId m = Inr m'"
    using dispose_returns by blast
  have r: "clients m' serverId = None \<and> initializingClients m' serverId = None"
    using d by (rule dispose_removes)
  have again: "dispose env serverId m' = Inr m'"
    using r by (simp add: dispose_absent)
  have noop: "clients m serverId = None \<and> initializingClients m serverId = None \<longrightarrow> m' = m"
    using d by (auto simp: dispose_absent)
  show ?thesis using d r again noop by blast
qed

text \<open>
  What becomes of a failing \<^verbatim>\<open>close()\<close>. An error thrown by the call itself is caught
  and logged. A rejection of the promise that \<^verbatim>\<open>close()\<close> returned is neither caught nor
  logged: it is left as an unhandled rejection.
\<close>

lemma dispose_close_throws:
  assumes "clients m serverId = Some c" and "close_behaviour env c = CloseThrows e"
  shows "\<exists>m'. dispose env serverId m = Inr m'
           \<and> errorLog m' = errorLog m @ [e]
           \<and> unhandledRejections m' = unhandledRejections m"
  using assms by (simp add: dispose_def try_catch_def close_client_def)

lemma dispose_close_rejects:
  assumes "clients m serverId = Some c" and "close_behaviour env c = CloseRejects e"
  shows "\<exists>m'. dispose env serverId m = Inr m'
           \<and> errorLog m' = errorLog m
           \<and> unhandledRejections m' = unhandledRejections m @ [e]"
  using assms by (simp add: dispose_def try_catch_def close_client_def)

text \<open>
  Claim C7 at the failing input: server 1 has the ready client 7, whose \<^verbatim>\<open>close()\<close>
  returns a promise that rejects. \<^verbatim>\<open>dispose(1)\<close> returns and removes both entries, but the
  close error is not swallowed: nothing reaches the error log and the rejection is left
  unhandled.
\<close>

theorem dispose_rejected_close_escapes:
  "clients ready_manager 1 = Some 7
   \<and> close_behaviour demo_env 7 = CloseRejects (ErrorObj ''transport already closed'')
   \<and> (case dispose demo_env 1 ready_manager of
         Inl e \<Rightarrow> False
       | Inr m' \<Rightarrow>
           clients m' 1 = None \<and> initializingClients m' 1 = None
           \<and> closeLog m' = [7] \<and> errorLog m' = []
           \<and> unhandledRejections m' = [ErrorObj ''transport already closed''])"
  by (simp add: dispose_def try_catch_def close_client_def ready_manager_def new_manager_def
        demo_env_def)

section \<open>Initialization: sharing, settling, configuration errors\<close>

lemma demo_init_1: "snd (initializeClient demo_env 1) = Inr 7"
  by (simp add: initializeClient_def demo_env_def create_with_timeout_def truthy_def Let_def)

lemma init_outcome_not_pending: "init_outcome env serverId \<noteq> Pending"
  by (simp add: init_outcome_def split: sum.splits)

lemma settle_pending:
  assumes "p < length (promises m)" and "promises m ! p = (serverId, Pending)"
  shows "promise_state (settle env p m) p = init_outcome env serverId"
    and "fst (promises (settle env p m) ! p) = serverId"
    and "clients (settle env p m) = clients m"
    and "initializingClients (settle env p m) = initializingClients m"
    and "initLog (settle env p m) = initLog m"
    and "length (promises (settle env p m)) = length (promises m)"
  using assms by (simp_all add: settle_def promise_state_def init_outcome_def Let_def)

lemma getClient_call_inflight:
  "clients m serverId = None \<Longrightarrow> initializingClients m serverId = Some p \<Longrightarrow>
     getClient_call serverId m = (Shares p, m)"
  by (simp add: getClient_call_def)

lemma getClient_call_absent:
  "clients m serverId = None \<Longrightarrow> initializingClients m serverId = None \<Longrightarrow>
     getClient_call serverId m =
       (Owns (length (promises m)),
        m\<lparr>promises := promises m @ [(serverId, Pending)],
          initLog := initLog m @ [serverId],
          initializingClients := (initializingClients m)(serverId \<mapsto> length (promises m))\<rparr>)"
  by (simp add: getClient_call_def Let_def)

lemma getClient_call_other:
  assumes "getClient_call j m = (r, m')" and "j \<noteq> serverId"
  shows "clients m' serverId = clients m serverId"
    and "initializingClients m' serverId = initializingClients m serverId"
    and "attempts m' serverId = attempts m serverId"
  using assms by (auto simp: getClient_call_def attempts_def Let_def split: option.splits)

lemma getClient_call_keeps_promises:
  assumes "getClient_call j m = (r, m')" and "p < length (promises m)"
  shows "p < length (promises m') \<and> promises m' ! p = promises m ! p"
  using assms by (auto simp: getClient_call_def Let_def nth_append split: option.splits)

lemma getClient_calls_other:
  "getClient_calls ids m = (rs, m') \<Longrightarrow> serverId \<notin> set ids \<Longrightarrow>
     clients m' serverId = clients m serverId
     \<and> initializingClients m' serverId = initializingClients m serverId
     \<and> attempts m' serverId = attempts m serverId"
proof (induction ids arbitrary: m rs)
  case Nil
  then show ?case by simp
next
  case (Cons j ids)
  obtain r m1 where s1: "getClient_call j m = (r, m1)" by (cases "getClient_call j m")
  from Cons.prems(1) s1 obtain rs1 where s2: "getClient_calls ids m1 = (rs1, m')"
    by (auto simp: Let_def split: prod.splits)
  from Cons.prems have ne: "j \<noteq> serverId" and notin: "serverId \<notin> set ids" by auto
  show ?case
    using Cons.IH [OF s2 notin] getClient_call_other [OF s1 ne] by simp
qed

lemma getClient_calls_inflight:
  "getClient_calls ids m = (rs, m') \<Longrightarrow>
   clients m serverId = None \<Longrightarrow> initializingClients m serverId = Some p \<Longrightarrow>
   p < length (promises m) \<Longrightarrow> promises m ! p = (serverId, Pending) \<Longrightarrow>
     clients m' serverId = None \<and> initializingClients m' serverId = Some p
     \<and> p < length (promises m') \<and> promises m' ! p = (serverId, Pending)
     \<and> attempts m' serverId = attempts m serverId
     \<and> (\<forall>(i, r) \<in> set (zip ids rs). i = serverId \<longrightarrow> r = Shares p)"
proof (induction ids arbitrary: m rs)
  case Nil
  then show ?case by simp
next
  case (Cons j ids)
  obtain r m1 where s1: "getClient_call j m = (r, m1)" by (cases "getClient_call j m")
  from Cons.prems(1) s1 obtain rs1 where s2: "getClient_calls ids m1 = (rs1, m')"
    and eq: "rs = r # rs1"
    by (auto simp: Let_def split: prod.splits)
  have pk: "p < length (promises m1) \<and> promises m1 ! p = promises m ! p"
    using getClient_call_keeps_promises [OF s1 Cons.prems(4)] .
  show ?case
  proof (cases "j = serverId")
    case True
    with s1 Cons.prems(2,3) have r: "r = Shares p" and m1: "m1 = m"
      by (simp_all add: getClient_call_inflight)
    from Cons.IH [OF s2] Cons.prems(2-5) m1
    show ?thesis using eq r True by simp
  next
    case False
    note o = getClient_call_other [OF s1 False]
    have "clients m' serverId = None \<and> initializingClients m' serverId = Some p
     \<and> p < length (promises m') \<and> promises m' ! p = (serverId, Pending)
     \<and> attempts m' serverId = attempts m1 serverId
     \<and> (\<forall>(i, r) \<in> set (zip ids rs1). i = serverId \<longrightarrow> r = Shares p)"
      using Cons.IH [OF s2] o Cons.prems(2-5) pk by simp
    then show ?thesis using eq False o by simp
  qed
qed

lemma getClient_calls_append:
  "getClient_calls (xs @ ys) m =
     (let (rs1, m1) = getClient_calls xs m; (rs2, m2) = getClient_calls ys m1
      in (rs1 @ rs2, m2))"
  by (induction xs arbitrary: m) (simp_all add: Let_def split: prod.splits)

lemma caller_receives_settled:
  assumes "p < length (promises m)" and "promises m ! p = (serverId, Pending)"
      and "r = Owns p \<or> r = Shares p"
  shows "caller_receives (settle env p m) r = init_outcome env serverId"
proof -
  note s = settle_pending [OF assms(1,2), of env]
  show ?thesis
  proof (cases "init_outcome env serverId")
    case Pending
    then show ?thesis using init_outcome_not_pending by blast
  next
    case (Fulfilled c)
    then show ?thesis using assms(3) s
      by (auto simp: caller_receives_def getClient_resume_def)
  next
    case (Rejected e)
    then show ?thesis using assms(3) s
      by (auto simp: caller_receives_def getClient_resume_def)
  qed
qed

text \<open>
  Claim C1. Take an identity with no cached connection and no attempt in flight, and any
  sequence of \<^verbatim>\<open>getClient\<close> calls that arrive before a promise settles, at least one of
  them for that identity (calls for other identities may be interleaved). Then exactly one
  \<^verbatim>\<open>initializeClient\<close> run is started for the identity; every caller for it holds the
  same promise, the first as its owner and the others by sharing; and once that promise
  settles each of them receives the outcome of that one run: the same client, or the same
  rejection.
\<close>

theorem no_duplicate_initialization:
  assumes "clients m serverId = None" and "initializingClients m serverId = None"
      and "serverId \<in> set ids" and "getClient_calls ids m = (rs, m')"
  shows "attempts m' serverId = attempts m serverId + 1
     \<and> (\<exists>p. initializingClients m' serverId = Some p
          \<and> (\<forall>(i, r) \<in> set (zip ids rs). i = serverId \<longrightarrow>
                (r = Owns p \<or> r = Shares p)
                \<and> caller_receives (settle env p m') r = init_outcome env serverId))"
proof -
  from assms(3) obtain pre post where ids: "ids = pre @ serverId # post" and pre: "serverId \<notin> set pre"
    by (auto dest: split_list_first)
  obtain rs1 m1 where s1: "getClient_calls pre m = (rs1, m1)" by (cases "getClient_calls pre m")
  obtain r m2 where s2: "getClient_call serverId m1 = (r, m2)" by (cases "getClient_call serverId m1")
  obtain rs3 m3 where s3: "getClient_calls post m2 = (rs3, m3)" by (cases "getClient_calls post m2")
  from assms(4) ids s1 s2 s3 have res: "rs = rs1 @ r # rs3" "m' = m3"
    by (simp_all add: getClient_calls_append)
  note o = getClient_calls_other [OF s1 pre]
  define p where "p = length (promises m1)"
  have abs1: "clients m1 serverId = None" "initializingClients m1 serverId = None"
    using o assms(1,2) by simp_all
  from s2 getClient_call_absent [OF abs1]
  have r: "r = Owns p"
    and m2: "m2 = m1\<lparr>promises := promises m1 @ [(serverId, Pending)],
          initLog := initLog m1 @ [serverId],
          initializingClients := (initializingClients m1)(serverId \<mapsto> p)\<rparr>"
    by (simp_all add: p_def)
  have inv2: "clients m2 serverId = None" "initializingClients m2 serverId = Some p"
     "p < length (promises m2)" "promises m2 ! p = (serverId, Pending)"
    using abs1 by (simp_all add: m2 p_def)
  have att2: "attempts m2 serverId = attempts m serverId + 1"
    using o by (simp add: m2 attempts_def)
  note inv3 = getClient_calls_inflight [OF s3 inv2]
  have len: "length pre = length rs1"
    using s1 by (induction pre arbitrary: m rs1) (auto simp: Let_def split: prod.splits)
  have shape: "\<forall>(i, r) \<in> set (zip ids rs). i = serverId \<longrightarrow> r = Owns p \<or> r = Shares p"
    using inv3 pre len by (auto simp: ids res r dest: set_zip_leftD)
  have recv: "\<forall>(i, r) \<in> set (zip ids rs). i = serverId \<longrightarrow>
                (r = Owns p \<or> r = Shares p)
                \<and> caller_receives (settle env p m') r = init_outcome env serverId"
    using shape inv3 caller_receives_settled [of p m3 serverId _ env] res(2) by fastforce
  show ?thesis using att2 inv3 recv res(2) by auto
qed

theorem no_duplicate_initialization_witness:
  "clients new_manager 1 = None \<and> initializingClients new_manager 1 = None
   \<and> (1::int) \<in> set [1, 5, 1, 1]
   \<and> attempts (snd (getClient_calls [1, 5, 1, 1] new_manager)) 1 = attempts new_manager 1 + 1
   \<and> fst (getClient_calls [1, 5, 1, 1] new_manager) = [Owns 0, Owns 1, Shares 0, Shares 0]"
  using no_duplicate_initialization [of new_manager 1 "[1, 5, 1, 1]"
          "fst (getClient_calls [1, 5, 1, 1] new_manager)"
          "snd (getClient_calls [1, 5, 1, 1] new_manager)" demo_env]
  by (simp add: new_manager_def getClient_call_def attempts_def Let_def)

lemma resume_settled:
  assumes "p < length (promises m)" and "promises m ! p = (serverId, Pending)"
  shows "getClient_resume serverId p (settle env p m) =
     (case init_outcome env serverId of
        Fulfilled c \<Rightarrow>
          Some (Inr c, (settle env p m)\<lparr>clients := (clients m)(serverId \<mapsto> c),
                         initializingClients := (initializingClients m)(serverId := None)\<rparr>)
      | Rejected e \<Rightarrow>
          Some (Inl e, (settle env p m)\<lparr>initializingClients := (initializingClients m)(serverId := None)\<rparr>)
      | Pending \<Rightarrow> None)"
  using settle_pending [OF assms, of env]
  by (simp add: getClient_resume_def split: settlement.splits)

text \<open>
  Claim C3. When the promise of an in-flight attempt settles, the owner's continuation
  runs and deletes the in-flight entry, on fulfilment and on rejection alike. On
  fulfilment the client is cached. On rejection the owner rethrows the error and the
  connection map is left as it was; if the identity had no cached client, the next
  \<^verbatim>\<open>getClient\<close> call for it becomes the owner of a new, pending promise and a further
  \<^verbatim>\<open>initializeClient\<close> run is recorded.
\<close>

theorem inflight_entry_removed_when_settled:
  assumes "p < length (promises m)" and "promises m ! p = (serverId, Pending)"
  shows "\<exists>res m'. getClient_resume serverId p (settle env p m) = Some (res, m')
          \<and> initializingClients m' serverId = None
          \<and> (\<forall>c. init_outcome env serverId = Fulfilled c \<longrightarrow>
                 res = Inr c \<and> clients m' serverId = Some c)
          \<and> (\<forall>e. init_outcome env serverId = Rejected e \<longrightarrow>
                 res = Inl e \<and> clients m' = clients m
                 \<and> (clients m serverId = None \<longrightarrow>
                      (\<exists>m''. getClient_call serverId m' = (Owns (length (promises m)), m'')
                            \<and> promise_state m'' (length (promises m)) = Pending
                            \<and> attempts m'' serverId = attempts m serverId + 1)))"
proof (cases "init_outcome env serverId")
  case Pending
  then show ?thesis using init_outcome_not_pending by blast
next
  case (Fulfilled c)
  then show ?thesis using resume_settled [OF assms, of env] by simp
next
  case (Rejected e)
  define m' where "m' = (settle env p m)\<lparr>initializingClients := (initializingClients m)(serverId := None)\<rparr>"
  note s = settle_pending [OF assms, of env]
  have r: "getClient_resume serverId p (settle env p m) = Some (Inl e, m')"
    using resume_settled [OF assms, of env] Rejected by (simp add: m'_def)
  have f: "initializingClients m' serverId = None" "clients m' = clients m"
      "length (promises m') = length (promises m)" "initLog m' = initLog m"
    using s by (simp_all add: m'_def)
  have again: "clients m serverId = None \<longrightarrow>
      (\<exists>m''. getClient_call serverId m' = (Owns (length (promises m)), m'')
            \<and> promise_state m'' (length (promises m)) = Pending
            \<and> attempts m'' serverId = attempts m serverId + 1)"
    using f by (auto simp: getClient_call_absent promise_state_def attempts_def nth_append)
  show ?thesis using r f again Rejected by simp
qed

lemma demo_init_2:
  "initializeClient demo_env 2 = ([AwaitDbSelect 2], Inl (ErrorObj ''MCP server command is required''))"
  by (simp add: initializeClient_def demo_env_def truthy_def)

theorem inflight_entry_removed_when_settled_witness:
  "(0::nat) < length (promises (snd (getClient_call 2 new_manager)))
   \<and> promises (snd (getClient_call 2 new_manager)) ! 0 = (2, Pending)
   \<and> init_outcome demo_env 2 = Rejected (ErrorObj ''MCP server command is required'')
   \<and> clients (snd (getClient_call 2 new_manager)) 2 = None
   \<and> (\<exists>m' m''. getClient_resume 2 0 (settle demo_env 0 (snd (getClient_call 2 new_manager)))
                   = Some (Inl (ErrorObj ''MCP server command is required''), m')
           \<and> initializingClients m' 2 = None
           \<and> getClient_call 2 m' = (Owns 1, m'')
           \<and> attempts m'' 2 = 2)"
proof -
  define m where "m = snd (getClient_call 2 new_manager)"
  have h: "0 < length (promises m)" "promises m ! 0 = (2, Pending)" "clients m 2 = None"
      "length (promises m) = 1" "attempts m 2 = 1"
    by (simp_all add: m_def getClient_call_def new_manager_def attempts_def Let_def)
  have o: "init_outcome demo_env 2 = Rejected (ErrorObj ''MCP server command is required'')"
    by (simp add: init_outcome_def demo_init_2)
  from inflight_entry_removed_when_settled [OF h(1,2), of demo_env] o h(3,4,5)
  have "\<exists>m' m''. getClient_resume 2 0 (settle demo_env 0 m)
                   = Some (Inl (ErrorObj ''MCP server command is required''), m')
           \<and> initializingClients m' 2 = None
           \<and> getClient_call 2 m' = (Owns 1, m'')
           \<and> attempts m'' 2 = 2"
    by auto
  then show ?thesis using h o unfolding m_def by simp
qed

lemma bad_configuration_rejects:
  assumes "find (\<lambda>x. row_id x = serverId) (db_select env serverId) = Some s"
      and "(transport s = Some ''stdio'' \<and> \<not> truthy (command s))
           \<or> (transport s = Some ''http'' \<and> \<not> truthy (url s))
           \<or> (transport s \<noteq> Some ''stdio'' \<and> transport s \<noteq> Some ''http'')"
  shows "\<exists>msg. initializeClient env serverId = ([AwaitDbSelect serverId], Inl (ErrorObj msg))"
  using assms by (auto simp: initializeClient_def)

text \<open>
  Claim C8, as the code has it. Let the configuration row of the identity be \<open>s\<close>. If \<open>s\<close>
  is a stdio transport without a command, an http transport without a url, or has any
  other transport kind, then \<^verbatim>\<open>initializeClient\<close> fails with the corresponding message
  after the awaited read of the configuration and with no further step: no transport is
  built, the client factory is not called, no timer is set and no race is awaited. The
  failure is not synchronous. A \<^verbatim>\<open>getClient\<close> call for such an identity, absent from both
  maps, returns to its caller as the owner of a pending promise that is registered in
  flight, and the error arrives as the rejection of that promise.
\<close>

theorem configuration_errors_precede_race:
  assumes "find (\<lambda>x. row_id x = serverId) (db_select env serverId) = Some s"
  shows "(transport s = Some ''stdio'' \<and> \<not> truthy (command s) \<longrightarrow>
            initializeClient env serverId =
              ([AwaitDbSelect serverId], Inl (ErrorObj ''MCP server command is required'')))
       \<and> (transport s = Some ''http'' \<and> \<not> truthy (url s) \<longrightarrow>
            initializeClient env serverId =
              ([AwaitDbSelect serverId], Inl (ErrorObj ''HTTP MCP requires url'')))
       \<and> (transport s \<noteq> Some ''stdio'' \<and> transport s \<noteq> Some ''http'' \<longrightarrow>
            initializeClient env serverId =
              ([AwaitDbSelect serverId],
               Inl (ErrorObj (''Unsupported MCP transport: '' @ template_str (transport s)))))
       \<and> ((transport s = Some ''stdio'' \<and> \<not> truthy (command s))
           \<or> (transport s = Some ''http'' \<and> \<not> truthy (url s))
           \<or> (transport s \<noteq> Some ''stdio'' \<and> transport s \<noteq> Some ''http'') \<longrightarrow>
            \<not> race_begins (fst (initializeClient env serverId))
            \<and> \<not> fails_synchronously (initializeClient env serverId)
            \<and> (clients m serverId = None \<and> initializingClients m serverId = None \<longrightarrow>
                  fst (getClient_call serverId m) = Owns (length (promises m))
                  \<and> initializingClients (snd (getClient_call serverId m)) serverId
                      = Some (length (promises m))
                  \<and> promise_state (snd (getClient_call serverId m)) (length (promises m))
                      = Pending
                  \<and> promise_state
                        (settle env (length (promises m)) (snd (getClient_call serverId m)))
                        (length (promises m))
                      = Rejected (case snd (initializeClient env serverId) of
                                    Inl e \<Rightarrow> e | Inr c \<Rightarrow> Nullish)))"
proof -
  have msgs: "(transport s = Some ''stdio'' \<and> \<not> truthy (command s) \<longrightarrow>
            initializeClient env serverId =
              ([AwaitDbSelect serverId], Inl (ErrorObj ''MCP server command is required'')))
       \<and> (transport s = Some ''http'' \<and> \<not> truthy (url s) \<longrightarrow>
            initializeClient env serverId =
              ([AwaitDbSelect serverId], Inl (ErrorObj ''HTTP MCP requires url'')))
       \<and> (transport s \<noteq> Some ''stdio'' \<and> transport s \<noteq> Some ''http'' \<longrightarrow>
            initializeClient env serverId =
              ([AwaitDbSelect serverId],
               Inl (ErrorObj (''Unsupported MCP transport: '' @ template_str (transport s)))))"
    using assms by (auto simp: initializeClient_def)
  have rest: "(transport s = Some ''stdio'' \<and> \<not> truthy (command s))
           \<or> (transport s = Some ''http'' \<and> \<not> truthy (url s))
           \<or> (transport s \<noteq> Some ''stdio'' \<and> transport s \<noteq> Some ''http'') \<longrightarrow>
            \<not> race_begins (fst (initializeClient env serverId))
            \<and> \<not> fails_synchronously (initializeClient env serverId)
            \<and> (clients m serverId = None \<and> initializingClients m serverId = None \<longrightarrow>
                  fst (getClient_call serverId m) = Owns (length (promises m))
                  \<and> initializingClients (snd (getClient_call serverId m)) serverId
                      = Some (length (promises m))
                  \<and> promise_state (snd (getClient_call serverId m)) (length (promises m))
                      = Pending
                  \<and> promise_state
                        (settle env (length (promises m)) (snd (getClient_call serverId m)))
                        (length (promises m))
                      = Rejected (case snd (initializeClient env serverId) of
                                    Inl e \<Rightarrow> e | Inr c \<Rightarrow> Nullish))"
  proof (intro impI)
    assume bad: "(transport s = Some ''stdio'' \<and> \<not> truthy (command s))
           \<or> (transport s = Some ''http'' \<and> \<not> truthy (url s))
           \<or> (transport s \<noteq> Some ''stdio'' \<and> transport s \<noteq> Some ''http'')"
    from bad_configuration_rejects [OF assms bad]
    obtain msg where run: "initializeClient env serverId = ([AwaitDbSelect serverId], Inl (ErrorObj msg))"
      by blast
    have a: "\<not> race_begins (fst (initializeClient env serverId))"
      by (simp add: run race_begins_def)
    have b: "\<not> fails_synchronously (initializeClient env serverId)"
      by (simp add: run fails_synchronously_def is_suspension_def)
    have c: "clients m serverId = None \<and> initializingClients m serverId = None \<longrightarrow>
                  fst (getClient_call serverId m) = Owns (length (promises m))
                  \<and> initializingClients (snd (getClient_call serverId m)) serverId
                      = Some (length (promises m))
                  \<and> promise_state (snd (getClient_call serverId m)) (length (promises m))
                      = Pending
                  \<and> promise_state
                        (settle env (length (promises m)) (snd (getClient_call serverId m)))
                        (length (promises m))
                      = Rejected (case snd (initializeClient env serverId) of
                                    Inl e \<Rightarrow> e | Inr c \<Rightarrow> Nullish)"
      by (simp add: getClient_call_absent promise_state_def settle_def run)
    show "\<not> race_begins (fst (initializeClient env serverId))
            \<and> \<not> fails_synchronously (initializeClient env serverId)
            \<and> (clients m serverId = None \<and> initializingClients m serverId = None \<longrightarrow>
                  fst (getClient_call serverId m) = Owns (length (promises m))
                  \<and> initializingClients (snd (getClient_call serverId m)) serverId
                      = Some (length (promises m))
                  \<and> promise_state (snd (getClient_call serverId m)) (length (promises m))
                      = Pending
                  \<and> promise_state
                        (settle env (length (promises m)) (snd (getClient_call serverId m)))
                        (length (promises m))
                      = Rejected (case snd (initializeClient env serverId) of
                                    Inl e \<Rightarrow> e | Inr c \<Rightarrow> Nullish))"
      using a b c by blast
  qed
  show ?thesis using msgs rest by blast
qed

lemma race_begins_iff_valid:
  assumes "find (\<lambda>x. row_id x = serverId) (db_select env serverId) = Some s"
  shows "race_begins (fst (initializeClient env serverId)) \<longleftrightarrow>
       (transport s = Some ''stdio'' \<and> truthy (command s))
     \<or> (transport s = Some ''http'' \<and> truthy (url s) \<and> url_parses env (the (url s)))"
  using assms
  by (auto simp: initializeClient_def race_begins_def create_with_timeout_def Let_def)

theorem configuration_errors_precede_race_witness:
  "find (\<lambda>x. row_id x = 4) (db_select demo_env 4) =
     Some \<lparr>row_id = 4, transport = Some ''sse'', command = None,
                        args = None, envJson = None, url = Some ''http://localhost:1/''\<rparr>
   \<and> initializeClient demo_env 4 =
       ([AwaitDbSelect 4], Inl (ErrorObj ''Unsupported MCP transport: sse''))
   \<and> \<not> race_begins (fst (initializeClient demo_env 4))
   \<and> clients new_manager 4 = None \<and> initializingClients new_manager 4 = None
   \<and> fst (getClient_call 4 new_manager) = Owns 0
   \<and> promise_state (snd (getClient_call 4 new_manager)) 0 = Pending
   \<and> promise_state (settle demo_env 0 (snd (getClient_call 4 new_manager))) 0
       = Rejected (ErrorObj ''Unsupported MCP transport: sse'')"
proof -
  have f: "find (\<lambda>x. row_id x = 4) (db_select demo_env 4) =
     Some \<lparr>row_id = 4, transport = Some ''sse'', command = None,
                        args = None, envJson = None, url = Some ''http://localhost:1/''\<rparr>"
    by (simp add: demo_env_def)
  have n: "clients new_manager 4 = None" "initializingClients new_manager 4 = None"
      "length (promises new_manager) = 0"
    by (simp_all add: new_manager_def)
  show ?thesis
    using f n configuration_errors_precede_race [OF f, of new_manager]
    by (simp add: template_str_def race_begins_def)
qed

text \<open>
  Claim C8 as stated fails: server 2 is a stdio transport without a command, yet the run
  of \<^verbatim>\<open>initializeClient\<close> passes a suspension (the awaited configuration read) before it
  fails, and \<^verbatim>\<open>getClient(2)\<close> returns to its caller with a pending promise registered in
  flight.
\<close>

theorem configuration_error_is_asynchronous_counterexample:
  "initializeClient demo_env 2 =
     ([AwaitDbSelect 2], Inl (ErrorObj ''MCP server command is required''))
   \<and> \<not> fails_synchronously (initializeClient demo_env 2)
   \<and> fst (getClient_call 2 new_manager) = Owns 0
   \<and> initializingClients (snd (getClient_call 2 new_manager)) 2 = Some 0
   \<and> promise_state (snd (getClient_call 2 new_manager)) 0 = Pending"
  by (simp add: demo_init_2 fails_synchronously_def is_suspension_def getClient_call_def
        new_manager_def promise_state_def Let_def)

text \<open>
  Claim C10. An execution exists in which \<^verbatim>\<open>dispose\<close> runs while the initialization of
  the identity is in flight and removes the in-flight entry, the initialization then
  succeeds, and the owner's continuation stores the client in the connection map: the
  identity is cached again although no \<^verbatim>\<open>getClient\<close> call followed the \<^verbatim>\<open>dispose\<close>
  (one \<^verbatim>\<open>initializeClient\<close> run in all), and \<^verbatim>\<open>close()\<close> was never called on the client.
\<close>

theorem dispose_during_initialization_is_undone:
  "\<exists>m1 m2 m4.
      getClient_call 1 new_manager = (Owns 0, m1)
    \<and> initializingClients m1 1 = Some 0
    \<and> dispose demo_env 1 m1 = Inr m2
    \<and> initializingClients m2 1 = None \<and> clients m2 1 = None
    \<and> getClient_resume 1 0 (settle demo_env 0 m2) = Some (Inr 7, m4)
    \<and> clients m4 1 = Some 7 \<and> closeLog m4 = [] \<and> initLog m4 = [1]"
proof -
  define m1 where "m1 = new_manager\<lparr>promises := [(1, Pending)], initLog := [1],
                          initializingClients := [1 \<mapsto> 0]\<rparr>"
  define m2 where "m2 = m1\<lparr>initializingClients := Map.empty\<rparr>"
  define m3 where "m3 = m2\<lparr>promises := [(1, Fulfilled 7)]\<rparr>"
  define m4 where "m4 = m3\<lparr>clients := [1 \<mapsto> 7]\<rparr>"
  have a: "getClient_call 1 new_manager = (Owns 0, m1)"
    by (simp add: getClient_call_def new_manager_def m1_def)
  have b: "dispose demo_env 1 m1 = Inr m2"
    by (simp add: dispose_def m1_def m2_def new_manager_def)
  have c: "settle demo_env 0 m2 = m3"
    by (simp add: settle_def m1_def m2_def m3_def new_manager_def demo_init_1)
  have d: "getClient_resume 1 0 m3 = Some (Inr 7, m4)"
    by (simp add: getClient_resume_def promise_state_def m1_def m2_def m3_def m4_def new_manager_def)
  have e: "initializingClients m1 1 = Some 0" "initializingClients m2 1 = None" "clients m2 1 = None"
      "clients m4 1 = Some 7" "closeLog m4 = []" "initLog m4 = [1]"
    by (simp_all add: m1_def m2_def m3_def m4_def new_manager_def)
  show ?thesis using a b c d e by simp
qed

section \<open>Executable resolution order\<close>




lemma demo_findInPath: "findInPath demo_detect_env ''gemini'' = Some ''/home/u/.npm/bin/gemini''"
  by (simp add: findInPath_def demo_detect_env_def trim_def is_space_def cons_head_def)


section \<open>Routing between the local and the remote path\<close>

lemma google_matrix:
  "(connectionMode gs = Some Cli \<and> cliFallbackToApi gs = Some False
      \<and> snd (gemini_cli_attempt env gs name) = Inl e \<longrightarrow>
        snd (getRegularModelClient_google env gs ev name)
          = Inl (ErrorObj (rethrown_message ''Gemini CLI failed'' e))
        \<and> \<not> remote_attempted (fst (getRegularModelClient_google env gs ev name)))
   \<and> (connectionMode gs = Some Cli \<and> cliFallbackToApi gs = Some True
      \<and> snd (gemini_cli_attempt env gs name) = Inl e
      \<and> resolve_apiKey env gs ev = Some k \<and> k \<noteq> [] \<longrightarrow>
        remote_attempted (fst (getRegularModelClient_google env gs ev name))
        \<and> snd (getRegularModelClient_google env gs ev name)
            = (case createGoogle env k name of
                 Inl e' \<Rightarrow> Inl e'
               | Inr m \<Rightarrow> Inr \<lparr>model = m, builtinProviderId = Some ''google''\<rparr>))
   \<and> (connectionMode gs = Some Auto
      \<and> snd (gemini_cli_attempt env gs name) = Inl e
      \<and> \<not> truthy (resolve_apiKey env gs ev) \<longrightarrow>
        snd (getRegularModelClient_google env gs ev name)
          = Inl (ErrorObj ''Gemini CLI is unavailable and no Gemini API key is configured for fallback. Provide an API key or fix the CLI configuration.'')
        \<and> \<not> remote_attempted (fst (getRegularModelClient_google env gs ev name)))
   \<and> (connectionMode gs = Some Api \<or> connectionMode gs = None \<longrightarrow>
        \<not> local_attempted (fst (getRegularModelClient_google env gs ev name)))"
proof -
  have no_remote: "\<not> remote_attempted (fst (gemini_cli_attempt env gs name))"
    by (simp add: gemini_cli_attempt_def remote_attempted_def Let_def split: sum.splits)
  obtain evs r where a: "gemini_cli_attempt env gs name = (evs, r)"
    by (cases "gemini_cli_attempt env gs name")
  show ?thesis
    using no_remote a
    by (auto simp: getRegularModelClient_google_def google_api_client_def remote_attempted_def
          local_attempted_def truthy_def Let_def split: sum.splits)
qed

lemma openai_matrix:
  "(connectionMode gs = Some Cli \<and> cliFallbackToApi gs = Some False
      \<and> snd (codex_cli_attempt env gs (resolve_apiKey env gs ev) name) = Inl e \<longrightarrow>
        snd (getRegularModelClient_openai env gs ev name)
          = Inl (ErrorObj (rethrown_message ''Codex CLI failed'' e))
        \<and> \<not> remote_attempted (fst (getRegularModelClient_openai env gs ev name)))
   \<and> (connectionMode gs = Some Cli \<and> cliFallbackToApi gs = Some True
      \<and> snd (codex_cli_attempt env gs (resolve_apiKey env gs ev) name) = Inl e
      \<and> resolve_apiKey env gs ev = Some k \<and> k \<noteq> [] \<longrightarrow>
        remote_attempted (fst (getRegularModelClient_openai env gs ev name))
        \<and> snd (getRegularModelClient_openai env gs ev name)
            = (case createOpenAI env k name of
                 Inl e' \<Rightarrow> Inl e'
               | Inr m \<Rightarrow> Inr \<lparr>model = m, builtinProviderId = Some ''openai''\<rparr>))
   \<and> (connectionMode gs = Some Auto
      \<and> snd (codex_cli_attempt env gs (resolve_apiKey env gs ev) name) = Inl e
      \<and> \<not> truthy (resolve_apiKey env gs ev) \<longrightarrow>
        snd (getRegularModelClient_openai env gs ev name)
          = Inl (ErrorObj ''Codex CLI is unavailable and no OpenAI API key is configured for fallback. Provide an API key or fix the CLI configuration.'')
        \<and> \<not> remote_attempted (fst (getRegularModelClient_openai env gs ev name)))
   \<and> (connectionMode gs = Some Api \<or> connectionMode gs = None \<longrightarrow>
        \<not> local_attempted (fst (getRegularModelClient_openai env gs ev name)))"
proof -
  have no_remote: "\<not> remote_attempted (fst (codex_cli_attempt env gs (resolve_apiKey env gs ev) name))"
    by (simp add: codex_cli_attempt_def remote_attempted_def Let_def split: sum.splits)
  obtain evs r where a: "codex_cli_attempt env gs (resolve_apiKey env gs ev) name = (evs, r)"
    by (cases "codex_cli_attempt env gs (resolve_apiKey env gs ev) name")
  show ?thesis
    using no_remote a
    by (auto simp: getRegularModelClient_openai_def openai_api_client_def remote_attempted_def
          local_attempted_def truthy_def Let_def split: sum.splits)
qed

text \<open>
  Claim C2. The fallback matrix, for the google and the openai case alike, where the local
  path fails when the \<^verbatim>\<open>try\<close> block throws \<open>e\<close>:
  \<^item> mode \<^verbatim>\<open>cli\<close>, fallback flag false: the call rejects with an error carrying the
    message of \<open>e\<close> (for an \<^verbatim>\<open>Error\<close> object its own message) and no remote client is
    created;
  \<^item> mode \<^verbatim>\<open>cli\<close>, fallback flag true, an api key present: the remote factory is called
    and what it gives is the result;
  \<^item> mode \<^verbatim>\<open>auto\<close>, no api key: the call rejects with the "no API key is configured
    for fallback" message;
  \<^item> mode \<^verbatim>\<open>api\<close> (also by default): no step of the local path is taken.
\<close>

theorem fallback_policy_matrix:
  "((connectionMode gs = Some Cli \<and> cliFallbackToApi gs = Some False
      \<and> snd (gemini_cli_attempt env gs name) = Inl e \<longrightarrow>
        snd (getRegularModelClient_google env gs ev name)
          = Inl (ErrorObj (rethrown_message ''Gemini CLI failed'' e))
        \<and> \<not> remote_attempted (fst (getRegularModelClient_google env gs ev name)))
   \<and> (connectionMode gs = Some Cli \<and> cliFallbackToApi gs = Some True
      \<and> snd (gemini_cli_attempt env gs name) = Inl e
      \<and> resolve_apiKey env gs ev = Some k \<and> k \<noteq> [] \<longrightarrow>
        remote_attempted (fst (getRegularModelClient_google env gs ev name))
        \<and> snd (getRegularModelClient_google env gs ev name)
            = (case createGoogle env k name of
                 Inl e' \<Rightarrow> Inl e'
               | Inr m \<Rightarrow> Inr \<lparr>model = m, builtinProviderId = Some ''google''\<rparr>))
   \<and> (connectionMode gs = Some Auto
      \<and> snd (gemini_cli_attempt env gs name) = Inl e
      \<and> \<not> truthy (resolve_apiKey env gs ev) \<longrightarrow>
        snd (getRegularModelClient_google env gs ev name)
          = Inl (ErrorObj ''Gemini CLI is unavailable and no Gemini API key is configured for fallback. Provide an API key or fix the CLI configuration.'')
        \<and> \<not> remote_attempted (fst (getRegularModelClient_google env gs ev name)))
   \<and> (connectionMode gs = Some Api \<or> connectionMode gs = None \<longrightarrow>
        \<not> local_attempted (fst (getRegularModelClient_google env gs ev name))))
   \<and> ((connectionMode gs = Some Cli \<and> cliFallbackToApi gs = Some False
      \<and> snd (codex_cli_attempt env gs (resolve_apiKey env gs ev) name) = Inl e \<longrightarrow>
        snd (getRegularModelClient_openai env gs ev name)
          = Inl (ErrorObj (rethrown_message ''Codex CLI failed'' e))
        \<and> \<not> remote_attempted (fst (getRegularModelClient_openai env gs ev name)))
   \<and> (connectionMode gs = Some Cli \<and> cliFallbackToApi gs = Some True
      \<and> snd (codex_cli_attempt env gs (resolve_apiKey env gs ev) name) = Inl e
      \<and> resolve_apiKey env gs ev = Some k \<and> k \<noteq> [] \<longrightarrow>
        remote_attempted (fst (getRegularModelClient_openai env gs ev name))
        \<and> snd (getRegularModelClient_openai env gs ev name)
            = (case createOpenAI env k name of
                 Inl e' \<Rightarrow> Inl e'
               | Inr m \<Rightarrow> Inr \<lparr>model = m, builtinProviderId = Some ''openai''\<rparr>))
   \<and> (connectionMode gs = Some Auto
      \<and> snd (codex_cli_attempt env gs (resolve_apiKey env gs ev) name) = Inl e
      \<and> \<not> truthy (resolve_apiKey env gs ev) \<longrightarrow>
        snd (getRegularModelClient_openai env gs ev name)
          = Inl (ErrorObj ''Codex CLI is unavailable and no OpenAI API key is configured for fallback. Provide an API key or fix the CLI configuration.'')
        \<and> \<not> remote_attempted (fst (getRegularModelClient_openai env gs ev name)))
   \<and> (connectionMode gs = Some Api \<or> connectionMode gs = None \<longrightarrow>
        \<not> local_attempted (fst (getRegularModelClient_openai env gs ev name))))"
  using google_matrix [of gs env name e ev k] openai_matrix [of gs env ev name e k] by blast

theorem fallback_policy_matrix_witness:
  "connectionMode (demo_setting Cli False (Some ''key'')) = Some Cli
   \<and> cliFallbackToApi (demo_setting Cli False (Some ''key'')) = Some False
   \<and> snd (gemini_cli_attempt demo_routing_env (demo_setting Cli False (Some ''key'')) ''gemini-2.5-pro'')
       = Inl (ErrorObj ''Gemini CLI executable not found'')
   \<and> snd (getRegularModelClient_google demo_routing_env (demo_setting Cli False (Some ''key''))
             None ''gemini-2.5-pro'')
       = Inl (ErrorObj ''Gemini CLI executable not found'')
   \<and> \<not> remote_attempted (fst (getRegularModelClient_google demo_routing_env
             (demo_setting Cli False (Some ''key'')) None ''gemini-2.5-pro''))"
proof -
  have a: "snd (gemini_cli_attempt demo_routing_env (demo_setting Cli False (Some ''key'')) ''gemini-2.5-pro'')
       = Inl (ErrorObj ''Gemini CLI executable not found'')"
    by (simp add: gemini_cli_attempt_def ensureGeminiCliAvailable_def demo_routing_env_def)
  have s: "connectionMode (demo_setting Cli False (Some ''key'')) = Some Cli"
      "cliFallbackToApi (demo_setting Cli False (Some ''key'')) = Some False"
    by (simp_all add: demo_setting_def)
  show ?thesis
    using a s fallback_policy_matrix [of "demo_setting Cli False (Some ''key'')" demo_routing_env
                "''gemini-2.5-pro''" "ErrorObj ''Gemini CLI executable not found''" None "''key''"]
    by (simp add: rethrown_message_def)
qed

section \<open>Failure classification in the bridges\<close>

lemma starts_with_set: "starts_with s t \<Longrightarrow> set t \<subseteq> set s"
  by (induction s t rule: starts_with.induct) auto

lemma includes_set: "includes_str s t \<Longrightarrow> set t \<subseteq> set s"
proof (induction s)
  case Nil
  then show ?case by simp
next
  case (Cons x xs)
  then show ?case using starts_with_set [of "x # xs" t] by auto
qed

lemma starts_with_map: "starts_with s t \<Longrightarrow> starts_with (map f s) (map f t)"
  by (induction s t rule: starts_with.induct) auto

lemma includes_map: "includes_str s t \<Longrightarrow> includes_str (map f s) (map f t)"
proof (induction s)
  case Nil
  then show ?case by simp
next
  case (Cons x xs)
  then show ?case using starts_with_map [of "x # xs" t f] by auto
qed

lemma starts_with_prefix: "starts_with s (a @ b) \<Longrightarrow> starts_with s a"
  by (induction s a rule: starts_with.induct) auto

lemma includes_prefix: "includes_str s (a @ b) \<Longrightarrow> includes_str s a"
proof (induction s)
  case Nil
  then show ?case by simp
next
  case (Cons x xs)
  then show ?case using starts_with_prefix [of "x # xs" a b] by auto
qed

lemma includes_nonempty: "includes_str s t \<Longrightarrow> t \<noteq> [] \<Longrightarrow> s \<noteq> []"
  by (cases s) auto

lemma lower_phrase:
  "toLowerCase rate_limit_phrase = ''rate limit'' @ '' exceeded, try again later (429)''"
  by code_simp

lemma phrase_is_codex_quota:
  assumes "includes_str s rate_limit_phrase"
  shows "codex_quota_text s" and "s \<noteq> []"
proof -
  have "includes_str (toLowerCase s) (toLowerCase rate_limit_phrase)"
    using assms unfolding toLowerCase_def by (rule includes_map)
  then have "includes_str (toLowerCase s) ''rate limit''"
    unfolding lower_phrase by (rule includes_prefix)
  then show "codex_quota_text s" by (simp add: codex_quota_text_def)
  show "s \<noteq> []" using assms by (auto simp: rate_limit_phrase_def dest: includes_nonempty)
qed

lemma detect_codex_iff:
  "detectQuotaMessage_codex t \<noteq> None \<longleftrightarrow> t \<noteq> [] \<and> codex_quota_text t"
  by (simp add: detectQuotaMessage_codex_def codex_quota_text_def Let_def)

lemma detect_codex_truthy:
  "detectQuotaMessage_codex t = Some q \<Longrightarrow> q \<noteq> []"
  by (auto simp: detectQuotaMessage_codex_def Let_def find_Some_iff split: if_splits option.splits)

lemma in_dropWhile: "x \<in> set xs \<Longrightarrow> \<not> P x \<Longrightarrow> x \<in> set (dropWhile P xs)"
  by (induction xs) auto

lemma trim_nonempty: "x \<in> set s \<Longrightarrow> \<not> is_space x \<Longrightarrow> trim s \<noteq> []"
proof -
  assume a: "x \<in> set s" "\<not> is_space x"
  then have "x \<in> set (rev (dropWhile is_space s))" by (simp add: in_dropWhile)
  then have "x \<in> set (dropWhile is_space (rev (dropWhile is_space s)))"
    using a(2) by (rule in_dropWhile)
  then show ?thesis unfolding trim_def by (metis empty_iff empty_set rev_is_Nil_conv)
qed

lemma lower_char_space: "is_space c \<Longrightarrow> lower_char c = c"
  by (auto simp: is_space_def lower_char_def Let_def)

lemma lower_has_nonspace:
  assumes "includes_str (toLowerCase l) t" and "c \<in> set t" and "\<not> is_space c"
  shows "trim l \<noteq> []"
proof -
  from assms(1,2) have "c \<in> set (toLowerCase l)" using includes_set by blast
  then obtain x where x: "x \<in> set l" "lower_char x = c" by (auto simp: toLowerCase_def)
  have "\<not> is_space x" using x(2) assms(3) lower_char_space by force
  with x(1) show ?thesis by (rule trim_nonempty)
qed

lemma q_not_space: "\<not> is_space CHR ''q''" and r_not_space: "\<not> is_space CHR ''r''"
  by (simp_all add: is_space_def)

lemma detect_gemini_iff:
  "detectQuotaMessage_gemini t \<noteq> None \<longleftrightarrow> t \<noteq> [] \<and> gemini_quota_text t"
  by (simp add: detectQuotaMessage_gemini_def gemini_quota_text_def Let_def)

lemma gemini_quota_text_nonempty: "gemini_quota_text t \<Longrightarrow> t \<noteq> []"
  by (auto simp: gemini_quota_text_def toLowerCase_def)

lemma detect_gemini_truthy:
  assumes "detectQuotaMessage_gemini t = Some q"
  shows "q \<noteq> []"
proof -
  have g: "gemini_quota_text t" and ne: "t \<noteq> []"
    using assms detect_gemini_iff [of t] by auto
  have raw: "trim t \<noteq> []"
  proof -
    from g consider "includes_str (toLowerCase t) ''quota exceeded''"
      | "includes_str (toLowerCase t) ''rate_limit_exceeded''"
      | "includes_str (toLowerCase t) ''resource_exhausted''"
      unfolding gemini_quota_text_def by blast
    then show ?thesis
    proof cases
      case 1
      then show ?thesis
        by (rule lower_has_nonspace [where c = "CHR ''q''"]) (simp_all add: q_not_space)
    next
      case 2
      then show ?thesis
        by (rule lower_has_nonspace [where c = "CHR ''r''"]) (simp_all add: r_not_space)
    next
      case 3
      then show ?thesis
        by (rule lower_has_nonspace [where c = "CHR ''r''"]) (simp_all add: r_not_space)
    qed
  qed
  show ?thesis
  proof (cases "find (\<lambda>line. includes_str (toLowerCase line) ''quota exceeded'') (split_lines t)")
    case (Some l)
    then have "includes_str (toLowerCase l) ''quota exceeded''" by (auto simp: find_Some_iff)
    then have "trim l \<noteq> []"
      by (rule lower_has_nonspace [where c = "CHR ''q''"]) (simp_all add: q_not_space)
    then show ?thesis using assms Some g ne
      by (auto simp: detectQuotaMessage_gemini_def gemini_quota_text_def Let_def)
  next
    case None
    note n1 = None
    show ?thesis
    proof (cases "find (\<lambda>line. includes_str (toLowerCase line) ''rate_limit_exceeded'') (split_lines t)")
      case (Some l)
      then have "includes_str (toLowerCase l) ''rate_limit_exceeded''" by (auto simp: find_Some_iff)
      then have "trim l \<noteq> []"
        by (rule lower_has_nonspace [where c = "CHR ''r''"]) (simp_all add: r_not_space)
      then show ?thesis using assms Some n1 g ne
        by (auto simp: detectQuotaMessage_gemini_def gemini_quota_text_def Let_def)
    next
      case None
      then show ?thesis using assms n1 g ne raw
        by (auto simp: detectQuotaMessage_gemini_def gemini_quota_text_def Let_def)
    qed
  qed
qed

lemma codex_quota_text_nonempty: "codex_quota_text t \<Longrightarrow> t \<noteq> []"
  by (auto simp: codex_quota_text_def toLowerCase_def)

lemma codex_quotaMessage_truthy:
  "truthy (codex_quotaMessage r) \<longleftrightarrow> codex_quota_text (stderr r) \<or> codex_quota_text (stdout r)"
proof -
  have a: "\<And>t. (detectQuotaMessage_codex t = None) = (\<not> codex_quota_text t)"
    using detect_codex_iff codex_quota_text_nonempty by blast
  show ?thesis
    using a [of "stderr r"] a [of "stdout r"]
    by (auto simp: codex_quotaMessage_def truthy_def split: option.splits
             dest: detect_codex_truthy)
qed

lemma codex_failure_cases:
  "codex_failure_response r =
     (if codex_quota_text (stderr r) \<or> codex_quota_text (stdout r) then
        error_response 429
          [(''message'', JStr (the (codex_quotaMessage r))),
           (''type'', JStr ''rate_limit_exceeded''),
           (''code'', JStr ''quota_exceeded'')]
      else if includes_str (stderr r) ''401'' \<or> includes_str (stdout r) ''401'' then
        error_response 401
          [(''message'', JStr codex_unauthorized_text), (''type'', JStr ''codex_cli_error''),
           (''code'', JStr ''unauthorized'')]
      else
        error_response 500
          [(''message'', JStr (codex_diagnostic r)), (''type'', JStr ''codex_cli_error'')])"
  using codex_quotaMessage_truthy [of r]
  by (simp add: codex_failure_response_def codex_quotaMessage_def Let_def)

lemma error_response_reads:
  "status (error_response st ps) = st"
  "error_code (error_response st ps) = map_of (rev ps) ''code''"
  "error_message (error_response st ps) = map_of (rev ps) ''message''"
  by (simp_all add: error_response_def error_code_def error_message_def get_prop_def)

lemma gemini_quotaMessage_truthy:
  "truthy (gemini_quotaMessage text r)
     \<longleftrightarrow> gemini_quota_text text \<or> gemini_quota_text (gemini_combinedOutput r)"
proof -
  have a: "\<And>t. (detectQuotaMessage_gemini t = None) = (\<not> gemini_quota_text t)"
    using detect_gemini_iff gemini_quota_text_nonempty by blast
  show ?thesis
    using a [of "text"] a [of "gemini_combinedOutput r"]
    by (auto simp: gemini_quotaMessage_def truthy_def split: option.splits
             dest: detect_gemini_truthy)
qed

lemma gemini_failure_cases:
  assumes "gemini_errorPayload_message r = JStr text"
  shows "gemini_failure_response r =
     Inr (if gemini_quota_text text \<or> gemini_quota_text (gemini_combinedOutput r) then
            error_response 429
              [(''message'', JStr (the (gemini_quotaMessage text r))),
               (''type'', JStr ''rate_limit_exceeded''),
               (''code'', JStr ''quota_exceeded'')]
          else
            error_response 500
              [(''message'', JStr text), (''type'', JStr ''gemini_cli_error'')])"
  using gemini_quotaMessage_truthy [of "text" r] assms
  by (simp add: gemini_failure_response_def gemini_quotaMessage_def Let_def)

lemma file_not_found_facts:
  "\<not> codex_quota_text ''file not found''" "\<not> codex_quota_text []"
  "\<not> includes_str ''file not found'' ''401''" "\<not> includes_str [] ''401''"
  "gemini_errorPayload_message (failed_with [] ''file not found'') = JStr ''file not found''"
  "\<not> gemini_quota_text ''file not found''"
  "gemini_combinedOutput (failed_with [] ''file not found'') = ''file not found''"
  by code_simp+

text \<open>
  Claim C4, as the code has it. Each bridge has its own list of quota indicators, matched
  without regard to case: the Codex bridge looks for \<^verbatim>\<open>rate limit\<close>, \<^verbatim>\<open>quota\<close> and \<^verbatim>\<open>429\<close>
  in stderr and stdout; the Gemini bridge looks for \<^verbatim>\<open>quota exceeded\<close>,
  \<^verbatim>\<open>rate_limit_exceeded\<close> and \<^verbatim>\<open>resource_exhausted\<close> in its error message and in the
  combined output. So:
  \<^item> a failed execution whose stderr or stdout contains
    \<^verbatim>\<open>Rate limit exceeded, try again later (429)\<close> gets status 429 with code
    \<^verbatim>\<open>quota_exceeded\<close> from the Codex bridge;
  \<^item> the Codex bridge answers 500 when neither stream has one of its indicators nor
    \<^verbatim>\<open>401\<close>;
  \<^item> the Gemini bridge, when its error message is text, answers 429 with code
    \<^verbatim>\<open>quota_exceeded\<close> if one of its own indicators occurs and 500 otherwise;
  \<^item> for the failure text \<^verbatim>\<open>file not found\<close> both bridges answer 500.
\<close>

theorem quota_detection_by_bridge:
  "(\<not> success r \<and> (includes_str (stderr r) rate_limit_phrase
                     \<or> includes_str (stdout r) rate_limit_phrase) \<longrightarrow>
       status (createCodexCliFetch now m st pc r) = 429
       \<and> error_code (createCodexCliFetch now m st pc r) = Some (JStr ''quota_exceeded''))
   \<and> (\<not> success r \<and> \<not> codex_quota_text (stderr r) \<and> \<not> codex_quota_text (stdout r)
        \<and> \<not> includes_str (stderr r) ''401'' \<and> \<not> includes_str (stdout r) ''401'' \<longrightarrow>
       status (createCodexCliFetch now m st pc r) = 500)
   \<and> (\<forall>text. \<not> success r \<and> gemini_errorPayload_message r = JStr text \<longrightarrow>
        (\<exists>resp. createCliFetch now m st pg r = Inr resp
           \<and> (if gemini_quota_text text \<or> gemini_quota_text (gemini_combinedOutput r)
               then status resp = 429 \<and> error_code resp = Some (JStr ''quota_exceeded'')
               else status resp = 500)))
   \<and> status (createCodexCliFetch now m st pc (failed_with [] ''file not found'')) = 500
   \<and> (\<exists>resp. createCliFetch now m st pg (failed_with [] ''file not found'') = Inr resp
             \<and> status resp = 500)"
proof -
  have c1: "\<not> success r \<and> (includes_str (stderr r) rate_limit_phrase
                     \<or> includes_str (stdout r) rate_limit_phrase) \<longrightarrow>
       status (createCodexCliFetch now m st pc r) = 429
       \<and> error_code (createCodexCliFetch now m st pc r) = Some (JStr ''quota_exceeded'')"
    using phrase_is_codex_quota(1) [of "stderr r"] phrase_is_codex_quota(1) [of "stdout r"]
    by (auto simp: createCodexCliFetch_def codex_failure_cases error_response_reads)
  have c2: "\<not> success r \<and> \<not> codex_quota_text (stderr r) \<and> \<not> codex_quota_text (stdout r)
        \<and> \<not> includes_str (stderr r) ''401'' \<and> \<not> includes_str (stdout r) ''401'' \<longrightarrow>
       status (createCodexCliFetch now m st pc r) = 500"
    by (simp add: createCodexCliFetch_def codex_failure_cases error_response_reads)
  have g: "\<forall>text. \<not> success r \<and> gemini_errorPayload_message r = JStr text \<longrightarrow>
        (\<exists>resp. createCliFetch now m st pg r = Inr resp
           \<and> (if gemini_quota_text text \<or> gemini_quota_text (gemini_combinedOutput r)
               then status resp = 429 \<and> error_code resp = Some (JStr ''quota_exceeded'')
               else status resp = 500))"
    by (simp add: createCliFetch_def gemini_failure_cases error_response_reads)
  have f1: "status (createCodexCliFetch now m st pc (failed_with [] ''file not found'')) = 500"
    using file_not_found_facts
    by (simp add: createCodexCliFetch_def codex_failure_cases error_response_reads failed_with_def)
  have f2: "\<exists>resp. createCliFetch now m st pg (failed_with [] ''file not found'') = Inr resp
             \<and> status resp = 500"
    using file_not_found_facts gemini_failure_cases [OF file_not_found_facts(5)]
    by (simp add: createCliFetch_def error_response_reads failed_with_def)
  show ?thesis using c1 c2 g f1 f2 by blast
qed

lemma phrase_in_itself: "includes_str rate_limit_phrase rate_limit_phrase"
  by code_simp

theorem quota_detection_by_bridge_witness:
  "\<not> success (failed_with [] rate_limit_phrase)
   \<and> includes_str (stderr (failed_with [] rate_limit_phrase)) rate_limit_phrase
   \<and> status (createCodexCliFetch 0 ''gpt-5'' False ([], None) (failed_with [] rate_limit_phrase)) = 429
   \<and> error_code (createCodexCliFetch 0 ''gpt-5'' False ([], None) (failed_with [] rate_limit_phrase))
       = Some (JStr ''quota_exceeded'')"
  using quota_detection_by_bridge [of "failed_with [] rate_limit_phrase" 0 "''gpt-5''" False
          "([], None)" "([], None)"] phrase_in_itself
  by (simp add: failed_with_def)

text \<open>
  Claim C4 as stated fails on the Gemini bridge: a failed execution whose stderr is
  \<^verbatim>\<open>Rate limit exceeded, try again later (429)\<close> gets status 500 there, not 429.
\<close>

theorem quota_detection_counterexample:
  "\<not> success (failed_with [] rate_limit_phrase)
   \<and> includes_str (stderr (failed_with [] rate_limit_phrase)) rate_limit_phrase
   \<and> createCliFetch 0 ''gemini-2.5-pro'' False ([], None) (failed_with [] rate_limit_phrase)
       = Inr (error_response 500
                [(''message'', JStr rate_limit_phrase), (''type'', JStr ''gemini_cli_error'')])
   \<and> status (error_response 500
                [(''message'', JStr rate_limit_phrase), (''type'', JStr ''gemini_cli_error'')]) \<noteq> 429"
  by code_simp

text \<open>A number too small for a double parses to zero and is falsy.\<close>

lemma number_truthiness:
  "\<not> js_truthy (JNum ''1e-400'')" "\<not> js_truthy (JNum ''-0.0'')" "js_truthy (JNum ''5e-324'')"
  "js_truthy (JNum ''5'')"
  by code_simp+

lemma json_error_facts:
  "tryParseError json_error_output = Some (JStr ''backend unavailable'')"
  "\<not> gemini_quota_text ''backend unavailable''"
  "\<not> gemini_quota_text (gemini_combinedOutput (failed_with json_error_output ''boom''))"
  by code_simp+

lemma gemini_nontext_message_throws:
  assumes "\<not> success r" and "\<forall>t. gemini_errorPayload_message r \<noteq> JStr t"
  shows "createCliFetch now m st pg r = Inl (ErrorObj ''rawMessage.toLowerCase is not a function'')"
  using assms
  by (cases "gemini_errorPayload_message r")
     (simp_all add: createCliFetch_def gemini_failure_response_def Let_def)

lemma json_message_preferred:
  "createCliFetch now m st pg (failed_with json_error_output ''boom'') =
     Inr (error_response 500
            [(''message'', JStr ''backend unavailable''), (''type'', JStr ''gemini_cli_error'')])"
proof -
  have msg: "gemini_errorPayload_message (failed_with json_error_output ''boom'')
               = JStr ''backend unavailable''"
    by (simp add: gemini_errorPayload_message_def failed_with_def json_error_facts(1))
  show ?thesis
    using gemini_failure_cases [OF msg] json_error_facts(2,3)
    by (simp add: createCliFetch_def failed_with_def)
qed

text \<open>
  Claim C5, as the code has it. Only the Codex bridge looks for \<^verbatim>\<open>401\<close>. For a failed
  execution with no Codex quota indicator in stderr or stdout, it answers 401 with code
  \<^verbatim>\<open>unauthorized\<close> and the login advice when either stream contains \<^verbatim>\<open>401\<close>, and
  otherwise 500 with the first non-empty of: trimmed stderr, trimmed stdout, the launch
  error message, a fixed text. The Gemini bridge has no such test. Its error message is
  the message parsed from JSON in stdout when there is one, else the one parsed from JSON
  in stderr, else the first non-empty of trimmed stderr, trimmed stdout, the launch error
  message, a fixed text. When that message is text and no quota indicator of its own
  occurs, it answers 500 carrying that message: so a JSON error document in stdout has
  its message carried in place of the stderr text.
\<close>

theorem failure_classification_by_bridge:
  "(\<not> success r \<and> \<not> codex_quota_text (stderr r) \<and> \<not> codex_quota_text (stdout r) \<longrightarrow>
      (if includes_str (stderr r) ''401'' \<or> includes_str (stdout r) ''401''
       then status (createCodexCliFetch now m st pc r) = 401
            \<and> error_code (createCodexCliFetch now m st pc r) = Some (JStr ''unauthorized'')
            \<and> error_message (createCodexCliFetch now m st pc r) = Some (JStr codex_unauthorized_text)
       else status (createCodexCliFetch now m st pc r) = 500
            \<and> error_message (createCodexCliFetch now m st pc r) =
                Some (JStr (if trim (stderr r) \<noteq> [] then trim (stderr r)
                            else if trim (stdout r) \<noteq> [] then trim (stdout r)
                            else if truthy (error r) then the (error r)
                            else ''Codex CLI failed''))))
   \<and> (\<forall>t. \<not> success r \<and> gemini_errorPayload_message r = JStr t
           \<and> \<not> gemini_quota_text t \<and> \<not> gemini_quota_text (gemini_combinedOutput r) \<longrightarrow>
         createCliFetch now m st pg r =
           Inr (error_response 500 [(''message'', JStr t), (''type'', JStr ''gemini_cli_error'')]))
   \<and> (\<forall>j. tryParseError (stdout r) = Some j \<longrightarrow> gemini_errorPayload_message r = j)
   \<and> (\<forall>j. tryParseError (stdout r) = None \<and> tryParseError (stderr r) = Some j \<longrightarrow>
         gemini_errorPayload_message r = j)
   \<and> (tryParseError (stdout r) = None \<and> tryParseError (stderr r) = None \<longrightarrow>
         gemini_errorPayload_message r =
           JStr (if trim (stderr r) \<noteq> [] then trim (stderr r)
                 else if trim (stdout r) \<noteq> [] then trim (stdout r)
                 else if truthy (error r) then the (error r)
                 else ''Gemini CLI failed''))
   \<and> tryParseError json_error_output = Some (JStr ''backend unavailable'')
   \<and> createCliFetch now m st pg (failed_with json_error_output ''boom'') =
         Inr (error_response 500
                [(''message'', JStr ''backend unavailable''), (''type'', JStr ''gemini_cli_error'')])"
proof -
  have c: "\<not> success r \<and> \<not> codex_quota_text (stderr r) \<and> \<not> codex_quota_text (stdout r) \<longrightarrow>
      (if includes_str (stderr r) ''401'' \<or> includes_str (stdout r) ''401''
       then status (createCodexCliFetch now m st pc r) = 401
            \<and> error_code (createCodexCliFetch now m st pc r) = Some (JStr ''unauthorized'')
            \<and> error_message (createCodexCliFetch now m st pc r) = Some (JStr codex_unauthorized_text)
       else status (createCodexCliFetch now m st pc r) = 500
            \<and> error_message (createCodexCliFetch now m st pc r) =
                Some (JStr (if trim (stderr r) \<noteq> [] then trim (stderr r)
                            else if trim (stdout r) \<noteq> [] then trim (stdout r)
                            else if truthy (error r) then the (error r)
                            else ''Codex CLI failed'')))"
    by (simp add: createCodexCliFetch_def codex_failure_cases error_response_reads
          codex_diagnostic_def)
  have g: "\<forall>t. \<not> success r \<and> gemini_errorPayload_message r = JStr t
           \<and> \<not> gemini_quota_text t \<and> \<not> gemini_quota_text (gemini_combinedOutput r) \<longrightarrow>
         createCliFetch now m st pg r =
           Inr (error_response 500 [(''message'', JStr t), (''type'', JStr ''gemini_cli_error'')])"
    by (simp add: createCliFetch_def gemini_failure_cases)
  have p1: "\<forall>j. tryParseError (stdout r) = Some j \<longrightarrow> gemini_errorPayload_message r = j"
    by (simp add: gemini_errorPayload_message_def)
  have p2: "\<forall>j. tryParseError (stdout r) = None \<and> tryParseError (stderr r) = Some j \<longrightarrow>
         gemini_errorPayload_message r = j"
    by (simp add: gemini_errorPayload_message_def)
  have p3: "tryParseError (stdout r) = None \<and> tryParseError (stderr r) = None \<longrightarrow>
         gemini_errorPayload_message r =
           JStr (if trim (stderr r) \<noteq> [] then trim (stderr r)
                 else if trim (stdout r) \<noteq> [] then trim (stdout r)
                 else if truthy (error r) then the (error r)
                 else ''Gemini CLI failed'')"
    by (simp add: gemini_errorPayload_message_def)
  note i1 = json_error_facts(1)
  note i2 = json_message_preferred [of now m st pg]
  show ?thesis using c g p1 p2 p3 i1 i2 by blast
qed

lemma unauthorized_facts:
  "\<not> codex_quota_text unauthorized_text" "\<not> codex_quota_text []"
  "includes_str unauthorized_text ''401''"
  "\<not> gemini_quota_text unauthorized_text"
  by code_simp+

theorem failure_classification_by_bridge_witness:
  "\<not> success (failed_with [] unauthorized_text)
   \<and> \<not> codex_quota_text (stderr (failed_with [] unauthorized_text))
   \<and> \<not> codex_quota_text (stdout (failed_with [] unauthorized_text))
   \<and> includes_str (stderr (failed_with [] unauthorized_text)) ''401''
   \<and> status (createCodexCliFetch 0 ''gpt-5'' False ([], None) (failed_with [] unauthorized_text)) = 401
   \<and> error_code (createCodexCliFetch 0 ''gpt-5'' False ([], None) (failed_with [] unauthorized_text))
       = Some (JStr ''unauthorized'')"
  using failure_classification_by_bridge [of "failed_with [] unauthorized_text" 0 "''gpt-5''" False
          "([], None)" "([], None)"] unauthorized_facts
  by (simp add: failed_with_def)

text \<open>
  Claim C5 as stated fails on the Gemini bridge: a failed execution whose stderr is
  \<^verbatim>\<open>HTTP 401 Unauthorized\<close>, which has no quota indicator of either list, gets status
  500 there, not 401.
\<close>

theorem unauthorized_detection_counterexample:
  "\<not> success (failed_with [] unauthorized_text)
   \<and> includes_str (stderr (failed_with [] unauthorized_text)) ''401''
   \<and> \<not> gemini_quota_text (stderr (failed_with [] unauthorized_text))
   \<and> \<not> codex_quota_text (stderr (failed_with [] unauthorized_text))
   \<and> createCliFetch 0 ''gemini-2.5-pro'' False ([], None) (failed_with [] unauthorized_text)
       = Inr (error_response 500
                [(''message'', JStr unauthorized_text), (''type'', JStr ''gemini_cli_error'')])
   \<and> status (error_response 500
                [(''message'', JStr unauthorized_text), (''type'', JStr ''gemini_cli_error'')]) \<noteq> 401"
  by code_simp

section \<open>Streaming and non-streaming responses\<close>

lemma usage_keys: "k \<noteq> ''usage'' \<Longrightarrow> map_of (rev (usagePayload u)) k = None"
  by (cases u) (simp_all add: usagePayload_def Let_def)

lemma get_prop_append:
  "get_prop (JObj (ps @ extra)) k =
     (case map_of (rev extra) k of Some v \<Rightarrow> Some v | None \<Rightarrow> map_of (rev ps) k)"
  by (simp add: get_prop_def map_add_def)

lemma first_choice_completion:
  assumes "map_of (rev extra) ''choices'' = None"
  shows "first_choice (completion p now m txt extra) =
     Some (JObj [(''index'', JNum ''0''),
                 (''message'', JObj [(''role'', JStr ''assistant''), (''content'', JStr txt)]),
                 (''finish_reason'', JStr ''stop'')])"
  unfolding first_choice_def completion_def get_prop_append
  by (simp add: assms)

lemma first_choice_chunk:
  assumes "map_of (rev extra) ''choices'' = None"
  shows "first_choice (chunk p now m delta fin extra) =
     Some (JObj [(''index'', JNum ''0''), (''delta'', JObj delta), (''finish_reason'', fin)])"
  unfolding first_choice_def chunk_def get_prop_append
  by (simp add: assms)

lemma message_content_completion:
  assumes "map_of (rev extra) ''choices'' = None"
  shows "message_content \<lparr>status = st, content_type = ct,
                          body = JsonBody (completion p now m txt extra)\<rparr> = Some txt"
  by (simp add: message_content_def first_choice_completion [OF assms] get_prop_def)

lemma delta_content_chunk:
  assumes "map_of (rev extra) ''choices'' = None"
  shows "delta_content (SseData (chunk p now m delta fin extra)) =
           (case map_of (rev delta) ''content'' of Some (JStr t) \<Rightarrow> t | _ \<Rightarrow> [])"
  by (simp add: delta_content_def first_choice_chunk [OF assms] get_prop_def)

lemma chunk_kind_chunk:
  assumes "map_of (rev extra) ''choices'' = None"
  shows "chunk_kind (SseData (chunk p now m [(''role'', JStr ''assistant'')] JNull extra)) = RoleChunk"
    and "chunk_kind (SseData (chunk p now m [(''content'', JStr txt)] JNull extra)) = ContentChunk txt"
    and "chunk_kind (SseData (chunk p now m [] (JStr ''stop'') extra)) = StopChunk"
  by (simp_all add: chunk_kind_def first_choice_chunk [OF assms] get_prop_def)

lemma sse_done: "chunk_kind SseDone = EndOfStream" "delta_content SseDone = []"
  by (simp_all add: chunk_kind_def delta_content_def)

lemma no_choices: "map_of (rev (usagePayload u)) ''choices'' = None" "map_of (rev []) ''choices'' = None"
  by (simp_all add: usage_keys)

lemma gemini_parity:
  "message_content (createJsonResponse_gemini now txt usage modelId) = Some txt"
  "streamed_content (createStreamingResponse_gemini now txt usage modelId) = Some txt"
  "map chunk_kind (stream_events (createStreamingResponse_gemini now txt usage modelId))
       = [RoleChunk, ContentChunk txt, StopChunk, EndOfStream]"
  by (simp_all add: createJsonResponse_gemini_def createStreamingResponse_gemini_def
        message_content_completion streamed_content_def stream_events_def
        delta_content_chunk chunk_kind_chunk no_choices sse_done)

lemma codex_parity:
  "message_content (createJsonResponse_codex now txt modelId) = Some txt"
  "streamed_content (createStreamingResponse_codex now txt modelId) = Some txt"
  "map chunk_kind (stream_events (createStreamingResponse_codex now txt modelId))
       = [RoleChunk, ContentChunk txt, StopChunk, EndOfStream]"
  by (simp_all add: createJsonResponse_codex_def createStreamingResponse_codex_def
        message_content_completion streamed_content_def stream_events_def
        delta_content_chunk chunk_kind_chunk no_choices sse_done)

text \<open>
  Claim C9. For every text, usage record, model name and time stamp, in both bridges:
  the message content a consumer reads from the non-streaming response is the text, and
  so is the concatenation of the content deltas of the events of the streaming response
  built from the same arguments. The stream consists, in this order, of a role chunk,
  one content chunk carrying the whole text, a stop chunk and the end-of-stream marker.
\<close>

theorem streaming_parity:
  "message_content (createJsonResponse_gemini now txt usage modelId) = Some txt
   \<and> streamed_content (createStreamingResponse_gemini now txt usage modelId) = Some txt
   \<and> map chunk_kind (stream_events (createStreamingResponse_gemini now txt usage modelId))
       = [RoleChunk, ContentChunk txt, StopChunk, EndOfStream]
   \<and> message_content (createJsonResponse_codex now txt modelId) = Some txt
   \<and> streamed_content (createStreamingResponse_codex now txt modelId) = Some txt
   \<and> map chunk_kind (stream_events (createStreamingResponse_codex now txt modelId))
       = [RoleChunk, ContentChunk txt, StopChunk, EndOfStream]"
  by (simp only: gemini_parity codex_parity simp_thms)

end
